theory Spec2Isabelle
  imports Main
begin

section \<open>Data model\<close>

text \<open>
  Times are milliseconds since the epoch, the value of \<^verbatim>\<open>Date.now()\<close> and of
  \<^verbatim>\<open>Date.getTime()\<close>; the current time is an explicit argument \<open>now\<close> of every
  operation that reads the clock. The database behind \<^verbatim>\<open>prisma\<close> is a record of
  tables, each table a list of rows; every operation takes the database and returns the
  new one. Values that the environment generates (\<^verbatim>\<open>uuidv4()\<close>, the identifiers
  and tokens the database assigns to a new row) are explicit arguments as well.
\<close>

type_synonym timestamp = int

record AuthUser =
  au_id :: string
  au_email :: string
  au_name :: "string option"

record JwtPayload =
  jp_userId :: string
  jp_email :: string

record RefreshToken =
  rt_id :: string
  rt_token :: string
  rt_userId :: string
  rt_expiresAt :: timestamp

datatype WorkspaceType = SOLE_TRADER | PARTNERSHIP

datatype MemberRole = OWNER | ADMIN | MEMBER

datatype InvitationStatus = PENDING | ACCEPTED | EXPIRED | CANCELLED

record Workspace =
  ws_id :: string
  ws_name :: string
  ws_type :: WorkspaceType

record WorkspaceMember =
  wm_id :: string
  wm_userId :: string
  wm_workspaceId :: string
  wm_role :: MemberRole
  wm_isOwner :: bool
  wm_profitSplit :: int

record Invitation =
  inv_id :: string
  inv_workspaceId :: string
  inv_email :: string
  inv_invitedById :: string
  inv_invitedUserId :: "string option"
  inv_profitSplit :: int
  inv_token :: string
  inv_status :: InvitationStatus
  inv_expiresAt :: timestamp

record Db =
  users :: "AuthUser list"
  refreshTokens :: "RefreshToken list"
  workspaces :: "Workspace list"
  workspaceMembers :: "WorkspaceMember list"
  invitations :: "Invitation list"

record Config =
  jwtSecret :: string
  jwtExpiresIn :: string
  refreshTokenExpiresIn :: string
  clientUrl :: string
  invitationExpiryDays :: int

section \<open>utils/jwt.ts\<close>

subsection \<open>parseDuration\<close>

definition isDigit :: "char \<Rightarrow> bool" where
  "isDigit c = (let n = (of_char c :: nat) in 48 \<le> n \<and> n \<le> 57)"

definition parseInt10 :: "string \<Rightarrow> int" where
  "parseInt10 ds = foldl (\<lambda>acc c. acc * 10 + (int (of_char c) - 48)) 0 ds"

text \<open>
  \<^verbatim>\<open>duration.match(/^(\d+)([smhd])$/)\<close>: one or more digits followed by exactly one
  unit letter; anything else gives the default of fifteen minutes.
\<close>

definition parseDuration :: "string \<Rightarrow> int" where
  "parseDuration duration =
     (if length duration < 2 \<or> \<not> list_all isDigit (butlast duration)
         \<or> last duration \<notin> set ''smhd''
      then 15 * 60 * 1000
      else
        let v = parseInt10 (butlast duration); unit = last duration in
        if unit = CHR ''s'' then v * 1000
        else if unit = CHR ''m'' then v * 60 * 1000
        else if unit = CHR ''h'' then v * 60 * 60 * 1000
        else if unit = CHR ''d'' then v * 24 * 60 * 60 * 1000
        else 15 * 60 * 1000)"

subsection \<open>The jsonwebtoken library\<close>

text \<open>
  The decoded content of an access token: the payload given to \<^verbatim>\<open>jwt.sign\<close> and
  the issued-at and expiry claims the library adds, both in seconds.
\<close>

record JwtClaims =
  jc_userId :: string
  jc_email :: string
  jc_iat :: int
  jc_exp :: int

text \<open>
  What the library does on bytes is a parameter: the compact serialisation of claims and
  signature (\<open>jl_encode\<close>, \<open>jl_decode\<close>), the keyed signature (\<open>jl_mac\<close>) and the
  parser of time spans such as \<^verbatim>\<open>'15m'\<close> into seconds (\<open>jl_timespan\<close>, \<open>None\<close>
  for a string that is not a time span).
\<close>

record JwtLib =
  jl_encode :: "JwtClaims \<Rightarrow> string \<Rightarrow> string"
  jl_decode :: "string \<Rightarrow> (JwtClaims \<times> string) option"
  jl_mac :: "string \<Rightarrow> JwtClaims \<Rightarrow> string"
  jl_timespan :: "string \<Rightarrow> int option"

text \<open>
  Modelled from the spec: \<^verbatim>\<open>jwt.sign\<close> of the jsonwebtoken package is not under
  src/. It "encodes \<^verbatim>\<open>{userId, email}\<close> plus issued-at/expiry claims, signed with a
  process-wide secret; fixed expiry window". \<open>None\<close> is the exception thrown for an
  \<^verbatim>\<open>expiresIn\<close> that is not a time span.
\<close>

definition jwt_sign :: "JwtLib \<Rightarrow> timestamp \<Rightarrow> JwtPayload \<Rightarrow> string \<Rightarrow> string \<Rightarrow> string option" where
  "jwt_sign lib now payload secret expiresIn =
     (case jl_timespan lib expiresIn of
        None \<Rightarrow> None
      | Some secs \<Rightarrow>
          let iat = now div 1000;
              claims = \<lparr>jc_userId = jp_userId payload, jc_email = jp_email payload,
                        jc_iat = iat, jc_exp = iat + secs\<rparr>
          in Some (jl_encode lib claims (jl_mac lib secret claims)))"

text \<open>
  Modelled from the spec: \<^verbatim>\<open>jwt.verify\<close> of the jsonwebtoken package is not under
  src/. It "checks signature and expiry against the signing secret; returns decoded claims
  on success, invalid signal on any failure (malformed, expired, bad signature)". \<open>None\<close>
  is any exception thrown; a token is expired from the second \<open>jc_exp\<close> on.
\<close>

definition jwt_verify :: "JwtLib \<Rightarrow> timestamp \<Rightarrow> string \<Rightarrow> string \<Rightarrow> JwtClaims option" where
  "jwt_verify lib now token secret =
     (case jl_decode lib token of
        None \<Rightarrow> None
      | Some (claims, sg) \<Rightarrow>
          if sg \<noteq> jl_mac lib secret claims then None
          else if jc_exp claims \<le> now div 1000 then None
          else Some claims)"

subsection \<open>Access tokens\<close>

definition generateAccessToken :: "Config \<Rightarrow> JwtLib \<Rightarrow> timestamp \<Rightarrow> JwtPayload \<Rightarrow> string option" where
  "generateAccessToken cfg lib now payload =
     jwt_sign lib now payload (jwtSecret cfg) (jwtExpiresIn cfg)"

text \<open>
  \<^verbatim>\<open>jwt.verify(token, config.jwtSecret) as JwtPayload\<close> inside \<^verbatim>\<open>try\<close>: every
  exception becomes \<^verbatim>\<open>null\<close>; the cast reads the decoded claims at the type
  \<^verbatim>\<open>JwtPayload\<close>.
\<close>

definition verifyAccessToken :: "Config \<Rightarrow> JwtLib \<Rightarrow> timestamp \<Rightarrow> string \<Rightarrow> JwtPayload option" where
  "verifyAccessToken cfg lib now token =
     (case jwt_verify lib now token (jwtSecret cfg) of
        None \<Rightarrow> None
      | Some claims \<Rightarrow> Some \<lparr>jp_userId = jc_userId claims, jp_email = jc_email claims\<rparr>)"

subsection \<open>The refresh token ledger\<close>

text \<open>
  \<^verbatim>\<open>prisma.refreshToken.create\<close>: the row identifier is the primary key and the
  token is a unique column (it is the key of \<^verbatim>\<open>findUnique\<close>), so a create that
  repeats either throws; \<open>None\<close> is that exception.
\<close>

definition generateRefreshToken ::
  "Config \<Rightarrow> timestamp \<Rightarrow> string \<Rightarrow> string \<Rightarrow> string \<Rightarrow> Db \<Rightarrow> (string \<times> Db) option" where
  "generateRefreshToken cfg now uuid newId userId db =
     (let token = uuid;
          expiresAt = now + parseDuration (refreshTokenExpiresIn cfg)
      in if list_ex (\<lambda>r. rt_id r = newId \<or> rt_token r = token) (refreshTokens db)
         then None
         else Some (token,
                db\<lparr>refreshTokens := refreshTokens db @
                     [\<lparr>rt_id = newId, rt_token = token, rt_userId = userId,
                       rt_expiresAt = expiresAt\<rparr>]\<rparr>))"

definition generateTokenPair ::
  "Config \<Rightarrow> JwtLib \<Rightarrow> timestamp \<Rightarrow> string \<Rightarrow> string \<Rightarrow> string \<Rightarrow> string \<Rightarrow> Db
   \<Rightarrow> ((string \<times> string) \<times> Db) option" where
  "generateTokenPair cfg lib now uuid newId userId email db =
     (case generateAccessToken cfg lib now \<lparr>jp_userId = userId, jp_email = email\<rparr> of
        None \<Rightarrow> None
      | Some accessToken \<Rightarrow>
          (case generateRefreshToken cfg now uuid newId userId db of
             None \<Rightarrow> None
           | Some (refreshToken, db') \<Rightarrow> Some ((accessToken, refreshToken), db')))"

definition verifyRefreshToken :: "timestamp \<Rightarrow> string \<Rightarrow> Db \<Rightarrow> string option \<times> Db" where
  "verifyRefreshToken now token db =
     (case find (\<lambda>r. rt_token r = token) (refreshTokens db) of
        None \<Rightarrow> (None, db)
      | Some refreshToken \<Rightarrow>
          if rt_expiresAt refreshToken < now
          then (None, db\<lparr>refreshTokens :=
                  filter (\<lambda>r. rt_id r \<noteq> rt_id refreshToken) (refreshTokens db)\<rparr>)
          else (Some (rt_userId refreshToken), db))"

definition revokeRefreshToken :: "string \<Rightarrow> Db \<Rightarrow> Db" where
  "revokeRefreshToken token db =
     db\<lparr>refreshTokens := filter (\<lambda>r. rt_token r \<noteq> token) (refreshTokens db)\<rparr>"

definition revokeAllUserTokens :: "string \<Rightarrow> Db \<Rightarrow> Db" where
  "revokeAllUserTokens userId db =
     db\<lparr>refreshTokens := filter (\<lambda>r. rt_userId r \<noteq> userId) (refreshTokens db)\<rparr>"

definition cleanupExpiredTokens :: "timestamp \<Rightarrow> Db \<Rightarrow> Db" where
  "cleanupExpiredTokens now db =
     db\<lparr>refreshTokens := filter (\<lambda>r. \<not> rt_expiresAt r < now) (refreshTokens db)\<rparr>"

section \<open>Requests and responses\<close>

text \<open>
  The parts of an Express request the handlers read. A header, cookie, query or body field
  that may be missing is an option. The path parameters \<^verbatim>\<open>memberId\<close> and
  \<^verbatim>\<open>invitationId\<close> are always bound on the routes that read them, and the body
  fields \<^verbatim>\<open>token\<close>, \<^verbatim>\<open>email\<close>, \<^verbatim>\<open>profitSplit\<close> and
  \<^verbatim>\<open>memberId\<close> have passed the \<^verbatim>\<open>validate\<close> middleware of their routes, so
  they are plain values. \<open>req_user\<close>, \<open>req_workspace\<close> and \<open>req_workspaceMember\<close>
  are what the middleware attaches.
\<close>

record Request =
  hdr_authorization :: "string option"
  cookie_accessToken :: "string option"
  cookie_refreshToken :: "string option"
  body_refreshToken :: "string option"
  body_token :: string
  body_name :: "string option"
  body_type :: "string option"
  body_email :: string
  body_profitSplit :: int
  body_memberId :: string
  body_workspaceName :: string
  body_accountType :: string
  param_workspaceId :: "string option"
  param_memberId :: string
  param_invitationId :: string
  query_workspaceId :: "string option"
  req_user :: "AuthUser option"
  req_workspace :: "Workspace option"
  req_workspaceMember :: "WorkspaceMember option"

text \<open>
  A response is its status code and either the error message or the data. \<open>AuthData\<close>
  carries the user, the access token of the JSON body and the refresh token set as a cookie.
\<close>

datatype Payload =
    Message string
  | AuthData AuthUser string string
  | WorkspaceData Workspace
  | MemberData WorkspaceMember
  | InvitationData Invitation string

datatype Response = Failure nat string | Success nat Payload

datatype MwResult = Reject Response | Next Request

text \<open>JavaScript truthiness of an optional string: missing and the empty string are falsy.\<close>

fun truthy :: "string option \<Rightarrow> bool" where
  "truthy None = False"
| "truthy (Some s) = (s \<noteq> [])"

text \<open>\<^verbatim>\<open>toLowerCase\<close> on the letters A to Z of a byte string.\<close>

definition lowerChar :: "char \<Rightarrow> char" where
  "lowerChar c =
     (case map_of (zip ''ABCDEFGHIJKLMNOPQRSTUVWXYZ'' ''abcdefghijklmnopqrstuvwxyz'') c of
        None \<Rightarrow> c
      | Some l \<Rightarrow> l)"

definition toLowerCase :: "string \<Rightarrow> string" where
  "toLowerCase s = map lowerChar s"

definition roleName :: "MemberRole \<Rightarrow> string" where
  "roleName r = (case r of OWNER \<Rightarrow> ''OWNER'' | ADMIN \<Rightarrow> ''ADMIN'' | MEMBER \<Rightarrow> ''MEMBER'')"

definition parseWorkspaceType :: "string \<Rightarrow> WorkspaceType option" where
  "parseWorkspaceType s =
     (if s = ''SOLE_TRADER'' then Some SOLE_TRADER
      else if s = ''PARTNERSHIP'' then Some PARTNERSHIP
      else None)"

section \<open>middleware/auth.ts\<close>

text \<open>
  \<^verbatim>\<open>authHeader?.startsWith('Bearer ') ? authHeader.slice(7) : req.cookies?.accessToken\<close>
\<close>

definition bearerToken :: "Request \<Rightarrow> string option" where
  "bearerToken req =
     (case hdr_authorization req of
        None \<Rightarrow> cookie_accessToken req
      | Some authHeader \<Rightarrow>
          if take 7 authHeader = ''Bearer '' then Some (drop 7 authHeader)
          else cookie_accessToken req)"

definition authenticate :: "Config \<Rightarrow> JwtLib \<Rightarrow> timestamp \<Rightarrow> Db \<Rightarrow> Request \<Rightarrow> MwResult" where
  "authenticate cfg lib now db req =
     (case bearerToken req of
        None \<Rightarrow> Reject (Failure 401 ''Authentication required'')
      | Some token \<Rightarrow>
          if token = [] then Reject (Failure 401 ''Authentication required'')
          else
            (case verifyAccessToken cfg lib now token of
               None \<Rightarrow> Reject (Failure 401 ''Invalid or expired token'')
             | Some payload \<Rightarrow>
                 (case find (\<lambda>u. au_id u = jp_userId payload) (users db) of
                    None \<Rightarrow> Reject (Failure 401 ''User not found'')
                  | Some user \<Rightarrow> Next (req\<lparr>req_user := Some user\<rparr>))))"

text \<open>
  The membership is read with its workspace (\<^verbatim>\<open>include: { workspace: true }\<close>). The
  foreign key makes that workspace exist; a database without it is answered like any other
  exception of the handler, with 500.
\<close>

definition requireWorkspace :: "Db \<Rightarrow> Request \<Rightarrow> MwResult" where
  "requireWorkspace db req =
     (case req_user req of
        None \<Rightarrow> Reject (Failure 401 ''Authentication required'')
      | Some user \<Rightarrow>
          let workspaceId = (if truthy (param_workspaceId req) then param_workspaceId req
                             else query_workspaceId req)
          in if \<not> truthy workspaceId then Reject (Failure 400 ''Workspace ID required'')
             else
               (case find (\<lambda>m. wm_userId m = au_id user \<and> Some (wm_workspaceId m) = workspaceId)
                       (workspaceMembers db) of
                  None \<Rightarrow> Reject (Failure 403 ''Access denied to this workspace'')
                | Some membership \<Rightarrow>
                    (case find (\<lambda>w. ws_id w = wm_workspaceId membership) (workspaces db) of
                       None \<Rightarrow> Reject (Failure 500 ''Authorization error'')
                     | Some workspace \<Rightarrow>
                         Next (req\<lparr>req_workspace := Some workspace,
                                   req_workspaceMember := Some membership\<rparr>))))"

definition requireRole :: "string list \<Rightarrow> Request \<Rightarrow> MwResult" where
  "requireRole roles req =
     (case req_workspaceMember req of
        None \<Rightarrow> Reject (Failure 403 ''Workspace access required'')
      | Some member \<Rightarrow>
          if roleName (wm_role member) \<notin> set roles
          then Reject (Failure 403 ''Insufficient permissions'')
          else Next req)"

section \<open>controllers/auth.ts\<close>

text \<open>
  The old token is revoked before the new pair is made and outside any transaction, so an
  exception of \<^verbatim>\<open>generateTokenPair\<close> leaves the old token revoked and answers 500.
\<close>

definition refreshToken ::
  "Config \<Rightarrow> JwtLib \<Rightarrow> timestamp \<Rightarrow> string \<Rightarrow> string \<Rightarrow> Db \<Rightarrow> Request \<Rightarrow> Response \<times> Db" where
  "refreshToken cfg lib now uuid newId db req =
     (let token = (if truthy (cookie_refreshToken req) then cookie_refreshToken req
                   else body_refreshToken req)
      in case token of
           None \<Rightarrow> (Failure 401 ''Refresh token required'', db)
         | Some tok \<Rightarrow>
             if tok = [] then (Failure 401 ''Refresh token required'', db)
             else
               (case verifyRefreshToken now tok db of (userId, db1) \<Rightarrow>
                  if \<not> truthy userId then (Failure 401 ''Invalid refresh token'', db1)
                  else
                    (case find (\<lambda>u. Some (au_id u) = userId) (users db1) of
                       None \<Rightarrow> (Failure 401 ''User not found'', db1)
                     | Some user \<Rightarrow>
                         let db2 = revokeRefreshToken tok db1 in
                         (case generateTokenPair cfg lib now uuid newId
                                 (au_id user) (au_email user) db2 of
                            None \<Rightarrow> (Failure 500 ''Token refresh failed'', db2)
                          | Some ((accessToken, newRefresh), db3) \<Rightarrow>
                              (Success 200 (AuthData user accessToken newRefresh), db3)))))"

definition logout :: "Db \<Rightarrow> Request \<Rightarrow> Response \<times> Db" where
  "logout db req =
     (case cookie_refreshToken req of
        None \<Rightarrow> (Success 200 (Message ''Logged out successfully''), db)
      | Some token \<Rightarrow>
          (Success 200 (Message ''Logged out successfully''),
           if token = [] then db else revokeRefreshToken token db))"

definition logoutAll :: "Db \<Rightarrow> Request \<Rightarrow> Response \<times> Db" where
  "logoutAll db req =
     (case req_user req of
        None \<Rightarrow> (Failure 401 ''Authentication required'', db)
      | Some user \<Rightarrow>
          (Success 200 (Message ''Logged out from all devices''),
           revokeAllUserTokens (au_id user) db))"

section \<open>controllers/workspace.ts\<close>

text \<open>
  Every handler runs in \<^verbatim>\<open>try\<close>/\<^verbatim>\<open>catch\<close> and answers an exception with 500. The
  exceptions modelled are those of the database: a create that repeats a primary key or a
  unique column, an update of a row that does not exist, and a value that is not of the
  column's enumeration. A \<^verbatim>\<open>$transaction\<close> that throws changes nothing. The settings
  row of a workspace is not part of this model.
\<close>

definition completeOnboarding :: "string \<Rightarrow> string \<Rightarrow> Db \<Rightarrow> Request \<Rightarrow> Response \<times> Db" where
  "completeOnboarding newWorkspaceId newMemberId db req =
     (case req_user req of
        None \<Rightarrow> (Failure 401 ''Authentication required'', db)
      | Some user \<Rightarrow>
          if list_ex (\<lambda>m. wm_userId m = au_id user) (workspaceMembers db)
          then (Failure 400 ''Workspace already exists'', db)
          else
            (case parseWorkspaceType (body_accountType req) of
               None \<Rightarrow> (Failure 500 ''Failed to complete onboarding'', db)
             | Some accountType \<Rightarrow>
                 if list_ex (\<lambda>w. ws_id w = newWorkspaceId) (workspaces db)
                    \<or> list_ex (\<lambda>m. wm_id m = newMemberId) (workspaceMembers db)
                 then (Failure 500 ''Failed to complete onboarding'', db)
                 else
                   let workspace = \<lparr>ws_id = newWorkspaceId, ws_name = body_workspaceName req,
                                     ws_type = accountType\<rparr>;
                       member = \<lparr>wm_id = newMemberId, wm_userId = au_id user,
                                  wm_workspaceId = newWorkspaceId, wm_role = OWNER,
                                  wm_isOwner = True, wm_profitSplit = 100\<rparr>
                   in (Success 201 (WorkspaceData workspace),
                       db\<lparr>workspaces := workspaces db @ [workspace],
                          workspaceMembers := workspaceMembers db @ [member]\<rparr>)))"

text \<open>
  \<^verbatim>\<open>data: { ...(name && { name }), ...(type && { type }) }\<close>: a field of the body is
  written when it is truthy. The route has no \<^verbatim>\<open>validate\<close> middleware, so the type
  is whatever string the caller sent.
\<close>

definition updateWorkspace :: "Db \<Rightarrow> Request \<Rightarrow> Response \<times> Db" where
  "updateWorkspace db req =
     (case (req_workspace req, req_workspaceMember req) of
        (Some workspace, Some member) \<Rightarrow>
          if roleName (wm_role member) \<notin> set [''OWNER'', ''ADMIN'']
          then (Failure 403 ''Insufficient permissions'', db)
          else
            (case find (\<lambda>w. ws_id w = ws_id workspace) (workspaces db) of
               None \<Rightarrow> (Failure 500 ''Failed to update workspace'', db)
             | Some row \<Rightarrow>
                 let named = (if truthy (body_name req)
                              then row\<lparr>ws_name := the (body_name req)\<rparr> else row)
                 in if \<not> truthy (body_type req)
                    then (Success 200 (WorkspaceData named),
                          db\<lparr>workspaces := map (\<lambda>w. if ws_id w = ws_id workspace then named else w)
                                              (workspaces db)\<rparr>)
                    else
                      (case parseWorkspaceType (the (body_type req)) of
                         None \<Rightarrow> (Failure 500 ''Failed to update workspace'', db)
                       | Some t \<Rightarrow>
                           let updated = named\<lparr>ws_type := t\<rparr>
                           in (Success 200 (WorkspaceData updated),
                               db\<lparr>workspaces :=
                                    map (\<lambda>w. if ws_id w = ws_id workspace then updated else w)
                                      (workspaces db)\<rparr>)))
      | _ \<Rightarrow> (Failure 404 ''Workspace not found'', db))"

text \<open>
  \<^verbatim>\<open>invitedById: req.user!.id\<close> throws on a request without a user. A new invitation
  has the status \<open>PENDING\<close>; its identifier and token come from the database.
\<close>

definition invitePartner ::
  "Config \<Rightarrow> timestamp \<Rightarrow> string \<Rightarrow> string \<Rightarrow> Db \<Rightarrow> Request \<Rightarrow> Response \<times> Db" where
  "invitePartner cfg now newInvitationId newToken db req =
     (case (req_workspace req, req_workspaceMember req) of
        (Some workspace, Some member) \<Rightarrow>
          if roleName (wm_role member) \<notin> set [''OWNER'', ''ADMIN'']
          then (Failure 403 ''Insufficient permissions'', db)
          else
            let email = toLowerCase (body_email req);
                existingInvitee = find (\<lambda>u. au_email u = email) (users db)
            in if (case existingInvitee of
                     None \<Rightarrow> False
                   | Some u \<Rightarrow> list_ex (\<lambda>m. wm_userId m = au_id u
                                          \<and> wm_workspaceId m = ws_id workspace)
                                (workspaceMembers db))
               then (Failure 400 ''User is already a member'', db)
               else if list_ex (\<lambda>i. inv_workspaceId i = ws_id workspace \<and> inv_email i = email
                                    \<and> inv_status i = PENDING) (invitations db)
               then (Failure 400 ''Invitation already pending'', db)
               else
                 (case req_user req of
                    None \<Rightarrow> (Failure 500 ''Failed to send invitation'', db)
                  | Some user \<Rightarrow>
                      if list_ex (\<lambda>i. inv_id i = newInvitationId \<or> inv_token i = newToken)
                           (invitations db)
                      then (Failure 500 ''Failed to send invitation'', db)
                      else
                        let invitation =
                              \<lparr>inv_id = newInvitationId, inv_workspaceId = ws_id workspace,
                               inv_email = email, inv_invitedById = au_id user,
                               inv_invitedUserId = map_option au_id existingInvitee,
                               inv_profitSplit = body_profitSplit req, inv_token = newToken,
                               inv_status = PENDING,
                               inv_expiresAt = now + invitationExpiryDays cfg * 24 * 60 * 60 * 1000\<rparr>
                        in (Success 201 (InvitationData invitation
                                           (clientUrl cfg @ ''/invite/'' @ newToken)),
                            db\<lparr>invitations := invitations db @ [invitation]\<rparr>))
      | _ \<Rightarrow> (Failure 404 ''Workspace not found'', db))"

text \<open>
  The transaction updates the invitation, creates the member and updates the workspace
  type. It throws, and changes nothing, when the member's identifier or its pair of user
  and workspace is already there, or when the invitation's workspace is missing. The
  member is created without \<^verbatim>\<open>isOwner\<close>, which is then false.
\<close>

definition acceptInvitation :: "timestamp \<Rightarrow> string \<Rightarrow> Db \<Rightarrow> Request \<Rightarrow> Response \<times> Db" where
  "acceptInvitation now newMemberId db req =
     (case req_user req of
        None \<Rightarrow> (Failure 401 ''Authentication required'', db)
      | Some user \<Rightarrow>
          (case find (\<lambda>i. inv_token i = body_token req) (invitations db) of
             None \<Rightarrow> (Failure 404 ''Invitation not found'', db)
           | Some invitation \<Rightarrow>
               if inv_status invitation \<noteq> PENDING
               then (Failure 400 ''Invitation is no longer valid'', db)
               else if inv_expiresAt invitation < now
               then (Failure 400 ''Invitation has expired'',
                     db\<lparr>invitations :=
                          map (\<lambda>i. if inv_id i = inv_id invitation
                                    then i\<lparr>inv_status := EXPIRED\<rparr> else i) (invitations db)\<rparr>)
               else if toLowerCase (inv_email invitation) \<noteq> toLowerCase (au_email user)
               then (Failure 403 ''This invitation is for a different email address'', db)
               else
                 (case find (\<lambda>w. ws_id w = inv_workspaceId invitation) (workspaces db) of
                    None \<Rightarrow> (Failure 500 ''Failed to accept invitation'', db)
                  | Some workspace \<Rightarrow>
                      if list_ex (\<lambda>m. wm_id m = newMemberId
                                       \<or> (wm_userId m = au_id user
                                           \<and> wm_workspaceId m = inv_workspaceId invitation))
                           (workspaceMembers db)
                      then (Failure 500 ''Failed to accept invitation'', db)
                      else
                        let member = \<lparr>wm_id = newMemberId, wm_userId = au_id user,
                                       wm_workspaceId = inv_workspaceId invitation,
                                       wm_role = MEMBER, wm_isOwner = False,
                                       wm_profitSplit = inv_profitSplit invitation\<rparr>
                        in (Success 200 (MemberData member),
                            db\<lparr>invitations :=
                                 map (\<lambda>i. if inv_id i = inv_id invitation
                                           then i\<lparr>inv_status := ACCEPTED,
                                                  inv_invitedUserId := Some (au_id user)\<rparr>
                                           else i) (invitations db),
                               workspaceMembers := workspaceMembers db @ [member],
                               workspaces :=
                                 (if ws_type workspace = SOLE_TRADER
                                  then map (\<lambda>w. if ws_id w = inv_workspaceId invitation
                                                 then w\<lparr>ws_type := PARTNERSHIP\<rparr> else w)
                                         (workspaces db)
                                  else workspaces db)\<rparr>))))"

definition updateProfitSplit :: "Db \<Rightarrow> Request \<Rightarrow> Response \<times> Db" where
  "updateProfitSplit db req =
     (case (req_workspace req, req_workspaceMember req) of
        (Some workspace, Some caller) \<Rightarrow>
          if wm_role caller \<noteq> OWNER
          then (Failure 403 ''Only owner can update profit splits'', db)
          else
            (case find (\<lambda>m. wm_id m = body_memberId req \<and> wm_workspaceId m = ws_id workspace)
                    (workspaceMembers db) of
               None \<Rightarrow> (Failure 404 ''Member not found'', db)
             | Some member \<Rightarrow>
                 (Success 200 (MemberData (member\<lparr>wm_profitSplit := body_profitSplit req\<rparr>)),
                  db\<lparr>workspaceMembers :=
                       map (\<lambda>m. if wm_id m = body_memberId req
                                 then m\<lparr>wm_profitSplit := body_profitSplit req\<rparr> else m)
                         (workspaceMembers db)\<rparr>))
      | _ \<Rightarrow> (Failure 404 ''Workspace not found'', db))"

definition removeMember :: "Db \<Rightarrow> Request \<Rightarrow> Response \<times> Db" where
  "removeMember db req =
     (case (req_workspace req, req_workspaceMember req) of
        (Some workspace, Some caller) \<Rightarrow>
          if wm_role caller \<noteq> OWNER
          then (Failure 403 ''Only owner can remove members'', db)
          else
            (case find (\<lambda>m. wm_id m = param_memberId req \<and> wm_workspaceId m = ws_id workspace)
                    (workspaceMembers db) of
               None \<Rightarrow> (Failure 404 ''Member not found'', db)
             | Some member \<Rightarrow>
                 if wm_isOwner member
                 then (Failure 400 ''Cannot remove workspace owner'', db)
                 else (Success 200 (Message ''Member removed successfully''),
                       db\<lparr>workspaceMembers :=
                            filter (\<lambda>m. wm_id m \<noteq> param_memberId req) (workspaceMembers db)\<rparr>))
      | _ \<Rightarrow> (Failure 404 ''Workspace not found'', db))"

definition cancelInvitation :: "Db \<Rightarrow> Request \<Rightarrow> Response \<times> Db" where
  "cancelInvitation db req =
     (case (req_workspace req, req_workspaceMember req) of
        (Some workspace, Some member) \<Rightarrow>
          if roleName (wm_role member) \<notin> set [''OWNER'', ''ADMIN'']
          then (Failure 403 ''Insufficient permissions'', db)
          else
            (case find (\<lambda>i. inv_id i = param_invitationId req
                             \<and> inv_workspaceId i = ws_id workspace \<and> inv_status i = PENDING)
                    (invitations db) of
               None \<Rightarrow> (Failure 404 ''Invitation not found'', db)
             | Some invitation \<Rightarrow>
                 (Success 200 (Message ''Invitation cancelled''),
                  db\<lparr>invitations :=
                       filter (\<lambda>i. inv_id i \<noteq> param_invitationId req) (invitations db)\<rparr>))
      | _ \<Rightarrow> (Failure 404 ''Workspace not found'', db))"

section \<open>Operations\<close>

text \<open>
  The state-changing entry points of the two controllers and of the token utilities.
  \<open>OpIssueTokenPair\<close> is the call of \<^verbatim>\<open>generateTokenPair\<close> made by register, login
  and the OAuth callback, which touch no other table of this model than the ledger;
  \<open>OpCleanupExpiredTokens\<close> is the periodic sweep.
\<close>

datatype Operation =
    OpRefreshToken Config JwtLib timestamp string string Request
  | OpLogout Request
  | OpLogoutAll Request
  | OpIssueTokenPair Config JwtLib timestamp string string string string
  | OpCleanupExpiredTokens timestamp
  | OpCompleteOnboarding string string Request
  | OpUpdateWorkspace Request
  | OpInvitePartner Config timestamp string string Request
  | OpAcceptInvitation timestamp string Request
  | OpUpdateProfitSplit Request
  | OpRemoveMember Request
  | OpCancelInvitation Request

fun perform :: "Operation \<Rightarrow> Db \<Rightarrow> Db" where
  "perform (OpRefreshToken cfg lib now uuid newId req) db =
     snd (refreshToken cfg lib now uuid newId db req)"
| "perform (OpLogout req) db = snd (logout db req)"
| "perform (OpLogoutAll req) db = snd (logoutAll db req)"
| "perform (OpIssueTokenPair cfg lib now uuid newId userId email) db =
     (case generateTokenPair cfg lib now uuid newId userId email db of
        None \<Rightarrow> db
      | Some (tokens, db') \<Rightarrow> db')"
| "perform (OpCleanupExpiredTokens now) db = cleanupExpiredTokens now db"
| "perform (OpCompleteOnboarding newWorkspaceId newMemberId req) db =
     snd (completeOnboarding newWorkspaceId newMemberId db req)"
| "perform (OpUpdateWorkspace req) db = snd (updateWorkspace db req)"
| "perform (OpInvitePartner cfg now newInvitationId newToken req) db =
     snd (invitePartner cfg now newInvitationId newToken db req)"
| "perform (OpAcceptInvitation now newMemberId req) db =
     snd (acceptInvitation now newMemberId db req)"
| "perform (OpUpdateProfitSplit req) db = snd (updateProfitSplit db req)"
| "perform (OpRemoveMember req) db = snd (removeMember db req)"
| "perform (OpCancelInvitation req) db = snd (cancelInvitation db req)"

fun run :: "Operation list \<Rightarrow> Db \<Rightarrow> Db" where
  "run [] db = db"
| "run (operation # rest) db = run rest (perform operation db)"

text \<open>The refresh token string an operation stores in the ledger, if it issues one.\<close>

fun issuedToken :: "Operation \<Rightarrow> string option" where
  "issuedToken (OpRefreshToken cfg lib now uuid newId req) = Some uuid"
| "issuedToken (OpIssueTokenPair cfg lib now uuid newId userId email) = Some uuid"
| "issuedToken _ = None"

text \<open>The token strings the ledger holds.\<close>

definition ledgerTokens :: "Db \<Rightarrow> string set" where
  "ledgerTokens db = rt_token ` set (refreshTokens db)"

text \<open>An update of a workspace that names \<^verbatim>\<open>SOLE_TRADER\<close> as the new type.\<close>

fun setsSoleTrader :: "Operation \<Rightarrow> bool" where
  "setsSoleTrader (OpUpdateWorkspace req) = (body_type req = Some ''SOLE_TRADER'')"
| "setsSoleTrader _ = False"

text \<open>The refresh token a refresh request presents: the cookie, else the body field.\<close>

definition presentedRefreshToken :: "Request \<Rightarrow> string option" where
  "presentedRefreshToken req =
     (if truthy (cookie_refreshToken req) then cookie_refreshToken req
      else body_refreshToken req)"

text \<open>The type of a workspace, read by its identifier.\<close>

definition workspaceType :: "Db \<Rightarrow> string \<Rightarrow> WorkspaceType option" where
  "workspaceType db workspaceId =
     map_option ws_type (find (\<lambda>w. ws_id w = workspaceId) (workspaces db))"

text \<open>The owner members of a workspace.\<close>

definition owners :: "Db \<Rightarrow> string \<Rightarrow> WorkspaceMember list" where
  "owners db workspaceId =
     filter (\<lambda>m. wm_isOwner m \<and> wm_workspaceId m = workspaceId) (workspaceMembers db)"

subsection \<open>Constraints of the schema\<close>

text \<open>
  The ledger's primary key and its unique token column; the primary keys of members and
  invitations and the unique token of an invitation.
\<close>

definition ledger_ok :: "RefreshToken list \<Rightarrow> bool" where
  "ledger_ok ledger = (distinct (map rt_id ledger) \<and> distinct (map rt_token ledger))"

definition members_ok :: "WorkspaceMember list \<Rightarrow> bool" where
  "members_ok ms = distinct (map wm_id ms)"

definition invitations_ok :: "Invitation list \<Rightarrow> bool" where
  "invitations_ok is = (distinct (map inv_id is) \<and> distinct (map inv_token is))"

section \<open>Example data\<close>

text \<open>
  A serialisation for the examples: every field is written after its length in unary, an
  integer as a run of marks with its sign. It stands in for the library's encoding, which
  the properties below never look into.
\<close>

definition encodeField :: "string \<Rightarrow> string" where
  "encodeField s = replicate (length s) CHR ''1'' @ CHR ''0'' # s"

definition decodeField :: "string \<Rightarrow> (string \<times> string) option" where
  "decodeField t =
     (let n = length (takeWhile (\<lambda>c. c = CHR ''1'') t) in
      case dropWhile (\<lambda>c. c = CHR ''1'') t of
        [] \<Rightarrow> None
      | z # body \<Rightarrow> if length body < n then None else Some (take n body, drop n body))"

definition encodeInt :: "int \<Rightarrow> string" where
  "encodeInt i = (if i < 0 then CHR ''-'' # replicate (nat (- i)) CHR ''x''
                  else replicate (nat i) CHR ''x'')"

definition decodeInt :: "string \<Rightarrow> int" where
  "decodeInt s = (case s of [] \<Rightarrow> 0
                  | c # r \<Rightarrow> if c = CHR ''-'' then - int (length r) else int (length s))"

definition exampleEncode :: "JwtClaims \<Rightarrow> string \<Rightarrow> string" where
  "exampleEncode claims sg =
     encodeField (jc_userId claims) @ encodeField (jc_email claims)
     @ encodeField (encodeInt (jc_iat claims)) @ encodeField (encodeInt (jc_exp claims))
     @ encodeField sg"

definition exampleDecode :: "string \<Rightarrow> (JwtClaims \<times> string) option" where
  "exampleDecode t =
     (case decodeField t of None \<Rightarrow> None | Some (u, t1) \<Rightarrow>
      case decodeField t1 of None \<Rightarrow> None | Some (e, t2) \<Rightarrow>
      case decodeField t2 of None \<Rightarrow> None | Some (i, t3) \<Rightarrow>
      case decodeField t3 of None \<Rightarrow> None | Some (x, t4) \<Rightarrow>
      case decodeField t4 of None \<Rightarrow> None | Some (sg, t5) \<Rightarrow>
        if t5 \<noteq> [] then None
        else Some (\<lparr>jc_userId = u, jc_email = e, jc_iat = decodeInt i, jc_exp = decodeInt x\<rparr>, sg))"

definition exampleMac :: "string \<Rightarrow> JwtClaims \<Rightarrow> string" where
  "exampleMac secret claims =
     secret @ jc_userId claims @ jc_email claims @ encodeInt (jc_iat claims)
     @ encodeInt (jc_exp claims)"

definition exampleLib :: JwtLib where
  "exampleLib = \<lparr>jl_encode = exampleEncode, jl_decode = exampleDecode, jl_mac = exampleMac,
                  jl_timespan = (\<lambda>s. if s = ''15m'' then Some 900 else None)\<rparr>"

definition exampleConfig :: Config where
  "exampleConfig = \<lparr>jwtSecret = ''secret'', jwtExpiresIn = ''15m'',
                     refreshTokenExpiresIn = ''7d'', clientUrl = ''http://localhost:5173'',
                     invitationExpiryDays = 7\<rparr>"

definition alice :: AuthUser where
  "alice = \<lparr>au_id = ''u1'', au_email = ''alice@x.com'', au_name = Some ''Alice''\<rparr>"

definition bob :: AuthUser where
  "bob = \<lparr>au_id = ''u2'', au_email = ''bob@x.com'', au_name = None\<rparr>"

definition alpha :: Workspace where
  "alpha = \<lparr>ws_id = ''w1'', ws_name = ''Alpha'', ws_type = SOLE_TRADER\<rparr>"

definition beta :: Workspace where
  "beta = \<lparr>ws_id = ''w2'', ws_name = ''Beta'', ws_type = PARTNERSHIP\<rparr>"

definition aliceInAlpha :: WorkspaceMember where
  "aliceInAlpha = \<lparr>wm_id = ''m1'', wm_userId = ''u1'', wm_workspaceId = ''w1'',
                    wm_role = OWNER, wm_isOwner = True, wm_profitSplit = 100\<rparr>"

definition bobInBeta :: WorkspaceMember where
  "bobInBeta = \<lparr>wm_id = ''m2'', wm_userId = ''u2'', wm_workspaceId = ''w2'',
                 wm_role = OWNER, wm_isOwner = True, wm_profitSplit = 60\<rparr>"

definition aliceInBeta :: WorkspaceMember where
  "aliceInBeta = \<lparr>wm_id = ''m3'', wm_userId = ''u1'', wm_workspaceId = ''w2'',
                   wm_role = MEMBER, wm_isOwner = False, wm_profitSplit = 40\<rparr>"

definition bobInvited :: Invitation where
  "bobInvited = \<lparr>inv_id = ''i1'', inv_workspaceId = ''w1'', inv_email = ''bob@x.com'',
                  inv_invitedById = ''u1'', inv_invitedUserId = Some ''u2'',
                  inv_profitSplit = 30, inv_token = ''k1'', inv_status = PENDING,
                  inv_expiresAt = 1000\<rparr>"

definition aliceAccepted :: Invitation where
  "aliceAccepted = \<lparr>inv_id = ''i2'', inv_workspaceId = ''w2'', inv_email = ''alice@x.com'',
                     inv_invitedById = ''u2'', inv_invitedUserId = Some ''u1'',
                     inv_profitSplit = 40, inv_token = ''k2'', inv_status = ACCEPTED,
                     inv_expiresAt = 1000\<rparr>"

definition exampleDb :: Db where
  "exampleDb =
     \<lparr>users = [alice, bob],
      refreshTokens =
        [\<lparr>rt_id = ''r1'', rt_token = ''t1'', rt_userId = ''u1'', rt_expiresAt = 1000\<rparr>,
         \<lparr>rt_id = ''r2'', rt_token = ''t2'', rt_userId = ''u1'', rt_expiresAt = 50\<rparr>,
         \<lparr>rt_id = ''r3'', rt_token = ''t3'', rt_userId = ''u2'', rt_expiresAt = 1000\<rparr>],
      workspaces = [alpha, beta],
      workspaceMembers = [aliceInAlpha, bobInBeta, aliceInBeta],
      invitations = [bobInvited, aliceAccepted]\<rparr>"

definition emptyRequest :: Request where
  "emptyRequest =
     \<lparr>hdr_authorization = None, cookie_accessToken = None, cookie_refreshToken = None,
      body_refreshToken = None, body_token = [], body_name = None, body_type = None,
      body_email = [], body_profitSplit = 0, body_memberId = [], body_workspaceName = [],
      body_accountType = [], param_workspaceId = None, param_memberId = [],
      param_invitationId = [], query_workspaceId = None, req_user = None,
      req_workspace = None, req_workspaceMember = None\<rparr>"

text \<open>The access token issued to Alice at second 5, valid for 900 seconds.\<close>

definition aliceAccessToken :: string where
  "aliceAccessToken =
     (let claims = \<lparr>jc_userId = ''u1'', jc_email = ''alice@x.com'', jc_iat = 5, jc_exp = 905\<rparr>
      in exampleEncode claims (exampleMac ''secret'' claims))"

text \<open>Requests by Bob, owner of Beta, and by Alice, owner of Alpha, after the middleware.\<close>

definition bobOnBeta :: Request where
  "bobOnBeta = emptyRequest\<lparr>param_workspaceId := Some ''w2'', req_user := Some bob,
                            req_workspace := Some beta, req_workspaceMember := Some bobInBeta\<rparr>"

definition aliceOnAlpha :: Request where
  "aliceOnAlpha = emptyRequest\<lparr>param_workspaceId := Some ''w1'', req_user := Some alice,
                               req_workspace := Some alpha,
                               req_workspaceMember := Some aliceInAlpha\<rparr>"

section \<open>Rows and keys\<close>

lemma find_by_key:
  "distinct (map f xs) \<Longrightarrow> r \<in> set xs \<Longrightarrow> find (\<lambda>x. f x = f r) xs = Some r"
  by (induction xs) (auto simp: image_iff)

lemma find_none_key:
  "(find (\<lambda>x. f x = k) xs = None) = (k \<notin> f ` set xs)"
  by (induction xs) auto

lemma filter_absent_key:
  "k \<notin> f ` set xs \<Longrightarrow> filter (\<lambda>x. f x \<noteq> k) xs = xs"
  by (induction xs) auto

lemma filter_by_key:
  "distinct (map f xs) \<Longrightarrow> r \<in> set xs \<Longrightarrow> filter (\<lambda>x. f x \<noteq> f r) xs = remove1 r xs"
proof (induction xs)
  case Nil
  then show ?case by simp
next
  case (Cons x xs)
  show ?case
  proof (cases "x = r")
    case True
    with Cons.prems have "f r \<notin> f ` set xs" by simp
    then show ?thesis using True by (simp add: filter_absent_key)
  next
    case False
    with Cons.prems have "r \<in> set xs" "f x \<noteq> f r" by auto
    with Cons show ?thesis using False by simp
  qed
qed

lemma same_key_same_row:
  "distinct (map f xs) \<Longrightarrow> r \<in> set xs \<Longrightarrow> x \<in> set xs \<Longrightarrow> f x = f r \<Longrightarrow> x = r"
  by (meson distinct_map inj_onD)

section \<open>The ledger\<close>

lemma verifyRefreshToken_absent:
  assumes "token \<notin> rt_token ` set (refreshTokens db)"
  shows "verifyRefreshToken now token db = (None, db)"
proof -
  from assms have "find (\<lambda>r. rt_token r = token) (refreshTokens db) = None"
    by (simp add: find_none_key)
  then show ?thesis by (simp add: verifyRefreshToken_def)
qed

lemma verifyRefreshToken_present:
  assumes ok: "ledger_ok (refreshTokens db)" and r: "r \<in> set (refreshTokens db)"
  shows "verifyRefreshToken now (rt_token r) db =
           (if rt_expiresAt r < now
            then (None, db\<lparr>refreshTokens := remove1 r (refreshTokens db)\<rparr>)
            else (Some (rt_userId r), db))"
proof -
  from ok r have "find (\<lambda>x. rt_token x = rt_token r) (refreshTokens db) = Some r"
    by (simp add: ledger_ok_def find_by_key)
  moreover from ok r
  have "filter (\<lambda>x. rt_id x \<noteq> rt_id r) (refreshTokens db) = remove1 r (refreshTokens db)"
    by (simp add: ledger_ok_def filter_by_key)
  ultimately show ?thesis by (simp add: verifyRefreshToken_def)
qed

lemma ledger_ok_filter: "ledger_ok ledger \<Longrightarrow> ledger_ok (filter P ledger)"
  by (simp add: ledger_ok_def distinct_map_filter)

text \<open>
  C4. On a ledger that respects its keys, \<open>verifyRefreshToken\<close> answers a token that no row
  holds with \<open>None\<close> and leaves the database as it is; for the row that holds the token,
  it answers \<open>None\<close> and deletes exactly that row when the row's expiry is before \<open>now\<close>,
  and otherwise answers the row's user and leaves the database as it is.
\<close>

theorem verifyRefreshToken_cases:
  assumes ok: "ledger_ok (refreshTokens db)"
  shows "(token \<notin> rt_token ` set (refreshTokens db) \<longrightarrow>
            verifyRefreshToken now token db = (None, db))
       \<and> (\<forall>r \<in> set (refreshTokens db). rt_token r = token \<longrightarrow>
            verifyRefreshToken now token db =
              (if rt_expiresAt r < now
               then (None, db\<lparr>refreshTokens := remove1 r (refreshTokens db)\<rparr>)
               else (Some (rt_userId r), db)))"
  using verifyRefreshToken_absent verifyRefreshToken_present [OF ok] by blast

text \<open>
  C3. After \<open>revokeAllUserTokens userId\<close>, every token that a row of that user held is
  answered with \<open>None\<close>, at any time; every row of another user is still in the ledger
  and its token is answered as before.
\<close>

theorem revokeAllUserTokens_invalidates:
  assumes ok: "ledger_ok (refreshTokens db)"
  shows "\<forall>r \<in> set (refreshTokens db).
           (rt_userId r = userId \<longrightarrow>
              verifyRefreshToken now (rt_token r) (revokeAllUserTokens userId db)
                = (None, revokeAllUserTokens userId db))
         \<and> (rt_userId r \<noteq> userId \<longrightarrow>
              r \<in> set (refreshTokens (revokeAllUserTokens userId db))
              \<and> fst (verifyRefreshToken now (rt_token r) (revokeAllUserTokens userId db))
                  = fst (verifyRefreshToken now (rt_token r) db))"
proof (intro ballI conjI impI)
  fix r assume r: "r \<in> set (refreshTokens db)" and u: "rt_userId r = userId"
  have "rt_token r \<notin> rt_token ` set (refreshTokens (revokeAllUserTokens userId db))"
  proof
    assume "rt_token r \<in> rt_token ` set (refreshTokens (revokeAllUserTokens userId db))"
    then obtain x where x: "x \<in> set (refreshTokens db)" "rt_userId x \<noteq> userId"
        "rt_token x = rt_token r"
      by (auto simp: revokeAllUserTokens_def)
    with ok r have "x = r" by (auto simp: ledger_ok_def intro: same_key_same_row)
    with x u show False by simp
  qed
  then show "verifyRefreshToken now (rt_token r) (revokeAllUserTokens userId db)
                = (None, revokeAllUserTokens userId db)"
    by (rule verifyRefreshToken_absent)
next
  fix r assume r: "r \<in> set (refreshTokens db)" and u: "rt_userId r \<noteq> userId"
  then show "r \<in> set (refreshTokens (revokeAllUserTokens userId db))"
    by (simp add: revokeAllUserTokens_def)
next
  fix r assume r: "r \<in> set (refreshTokens db)" and u: "rt_userId r \<noteq> userId"
  let ?db = "revokeAllUserTokens userId db"
  have ok': "ledger_ok (refreshTokens ?db)"
    using ok by (simp add: revokeAllUserTokens_def ledger_ok_filter)
  have r': "r \<in> set (refreshTokens ?db)"
    using r u by (simp add: revokeAllUserTokens_def)
  show "fst (verifyRefreshToken now (rt_token r) ?db) = fst (verifyRefreshToken now (rt_token r) db)"
    by (simp add: verifyRefreshToken_present [OF ok r] verifyRefreshToken_present [OF ok' r'])
qed

section \<open>Tables an operation leaves alone\<close>

lemma refreshTokens_verify:
  "set (refreshTokens (snd (verifyRefreshToken now token db))) \<subseteq> set (refreshTokens db)"
  by (auto simp: verifyRefreshToken_def split: option.splits)

lemma ledgerTokens_verify:
  "ledgerTokens (snd (verifyRefreshToken now token db)) \<subseteq> ledgerTokens db"
  using refreshTokens_verify unfolding ledgerTokens_def by blast

lemma ledgerTokens_revoke: "ledgerTokens (revokeRefreshToken token db) = ledgerTokens db - {token}"
  by (auto simp: ledgerTokens_def revokeRefreshToken_def)

lemma ledgerTokens_revokeAll: "ledgerTokens (revokeAllUserTokens userId db) \<subseteq> ledgerTokens db"
  by (auto simp: ledgerTokens_def revokeAllUserTokens_def)

lemma ledgerTokens_cleanup: "ledgerTokens (cleanupExpiredTokens now db) \<subseteq> ledgerTokens db"
  by (auto simp: ledgerTokens_def cleanupExpiredTokens_def)

lemma ledgerTokens_generate:
  "generateRefreshToken cfg now uuid newId userId db = Some (t, db')
   \<Longrightarrow> ledgerTokens db' = insert uuid (ledgerTokens db)"
  by (auto simp: ledgerTokens_def generateRefreshToken_def Let_def split: if_splits)

lemma ledgerTokens_pair:
  "generateTokenPair cfg lib now uuid newId userId email db = Some (ts, db')
   \<Longrightarrow> ledgerTokens db' = insert uuid (ledgerTokens db)"
  by (auto simp: generateTokenPair_def split: option.splits dest: ledgerTokens_generate)

lemma ledgerTokens_refreshToken:
  "ledgerTokens (snd (refreshToken cfg lib now uuid newId db req)) \<subseteq> insert uuid (ledgerTokens db)"
proof -
  have v: "\<And>t. ledgerTokens (snd (verifyRefreshToken now t db)) \<subseteq> ledgerTokens db"
    by (rule ledgerTokens_verify)
  show ?thesis
    unfolding refreshToken_def Let_def
    using v
    by (auto split: option.splits prod.splits simp: ledgerTokens_revoke dest!: ledgerTokens_pair)
       (metis snd_conv subsetD)+
qed

lemma refreshTokens_completeOnboarding:
  "refreshTokens (snd (completeOnboarding w m db req)) = refreshTokens db"
  by (simp add: completeOnboarding_def Let_def split: option.splits)

lemma refreshTokens_updateWorkspace:
  "refreshTokens (snd (updateWorkspace db req)) = refreshTokens db"
  by (simp add: updateWorkspace_def Let_def split: option.splits)

lemma refreshTokens_invitePartner:
  "refreshTokens (snd (invitePartner cfg now i t db req)) = refreshTokens db"
  by (simp add: invitePartner_def Let_def split: option.splits)

lemma refreshTokens_acceptInvitation:
  "refreshTokens (snd (acceptInvitation now m db req)) = refreshTokens db"
  by (simp add: acceptInvitation_def Let_def split: option.splits)

lemma refreshTokens_updateProfitSplit:
  "refreshTokens (snd (updateProfitSplit db req)) = refreshTokens db"
  by (simp add: updateProfitSplit_def Let_def split: option.splits)

lemma refreshTokens_removeMember:
  "refreshTokens (snd (removeMember db req)) = refreshTokens db"
  by (simp add: removeMember_def Let_def split: option.splits)

lemma refreshTokens_cancelInvitation:
  "refreshTokens (snd (cancelInvitation db req)) = refreshTokens db"
  by (simp add: cancelInvitation_def Let_def split: option.splits)

lemmas refreshTokens_workspace_handlers =
  refreshTokens_completeOnboarding refreshTokens_updateWorkspace refreshTokens_invitePartner
  refreshTokens_acceptInvitation refreshTokens_updateProfitSplit refreshTokens_removeMember
  refreshTokens_cancelInvitation

lemma ledgerTokens_perform:
  "ledgerTokens (perform operation db) \<subseteq> ledgerTokens db \<union> set_option (issuedToken operation)"
proof (cases operation)
  case (OpRefreshToken cfg lib now uuid newId req)
  then show ?thesis using ledgerTokens_refreshToken [of cfg lib now uuid newId db req] by auto
next
  case (OpLogout req)
  then show ?thesis by (auto simp: logout_def ledgerTokens_revoke split: option.splits)
next
  case (OpLogoutAll req)
  then show ?thesis
    using ledgerTokens_revokeAll by (auto simp: logoutAll_def split: option.splits)
next
  case (OpIssueTokenPair cfg lib now uuid newId userId email)
  then show ?thesis by (auto split: option.splits dest!: ledgerTokens_pair)
next
  case (OpCleanupExpiredTokens now)
  then show ?thesis using ledgerTokens_cleanup by auto
qed (simp_all add: ledgerTokens_def refreshTokens_workspace_handlers)

lemma absent_token_stays:
  "token \<notin> ledgerTokens db \<Longrightarrow> \<forall>operation \<in> set ops. issuedToken operation \<noteq> Some token
   \<Longrightarrow> token \<notin> ledgerTokens (run ops db)"
proof (induction ops arbitrary: db)
  case Nil
  then show ?case by simp
next
  case (Cons operation ops)
  have "token \<notin> ledgerTokens (perform operation db)"
    using Cons.prems ledgerTokens_perform [of operation db]
    by (cases "issuedToken operation") auto
  then show ?case using Cons by simp
qed

lemma refreshToken_success:
  assumes "refreshToken cfg lib now uuid newId db req = (Success code payload, db')"
      and "presentedRefreshToken req = Some token"
  shows "ledgerTokens db' \<subseteq> insert uuid (ledgerTokens db - {token})"
  using assms ledgerTokens_verify [of now token db]
  unfolding refreshToken_def presentedRefreshToken_def Let_def
  by (auto split: option.splits prod.splits if_splits simp: ledgerTokens_revoke dest!: ledgerTokens_pair)

text \<open>
  C2. When the refresh handler has succeeded on a token (it validated the token, revoked
  it and issued a new pair under a different token string), the old token is answered with
  \<open>None\<close> after any further operations, at any time, as long as none of them issues that
  same string again.
\<close>

theorem rotation_consumes_token:
  assumes ok: "refreshToken cfg lib now uuid newId db req = (Success code payload, db')"
      and tok: "presentedRefreshToken req = Some token"
      and fresh: "uuid \<noteq> token"
      and later: "\<forall>operation \<in> set ops. issuedToken operation \<noteq> Some token"
  shows "verifyRefreshToken now' token (run ops db') = (None, run ops db')"
proof -
  from refreshToken_success [OF ok tok] fresh have "token \<notin> ledgerTokens db'" by auto
  from this later have "token \<notin> ledgerTokens (run ops db')" by (rule absent_token_stays)
  then show ?thesis unfolding ledgerTokens_def by (rule verifyRefreshToken_absent)
qed

section \<open>Access tokens\<close>

text \<open>
  C1. With a library whose decoding inverts its encoding, the access token issued for
  \<open>userId\<close> and \<open>email\<close> at time \<open>now\<close> verifies under the same configuration to exactly
  these two values while the clock's second is before the expiry second, and to \<open>None\<close>
  from the expiry second on.
\<close>

theorem access_token_roundtrip:
  assumes codec: "\<And>claims sg. jl_decode lib (jl_encode lib claims sg) = Some (claims, sg)"
      and span: "jl_timespan lib (jwtExpiresIn cfg) = Some secs"
      and issued: "generateAccessToken cfg lib now \<lparr>jp_userId = userId, jp_email = email\<rparr> = Some token"
  shows "verifyAccessToken cfg lib now' token =
           (if now' div 1000 < now div 1000 + secs
            then Some \<lparr>jp_userId = userId, jp_email = email\<rparr> else None)"
proof -
  let ?claims = "\<lparr>jc_userId = userId, jc_email = email, jc_iat = now div 1000,
                   jc_exp = now div 1000 + secs\<rparr>"
  from issued span have "token = jl_encode lib ?claims (jl_mac lib (jwtSecret cfg) ?claims)"
    by (simp add: generateAccessToken_def jwt_sign_def Let_def)
  then have "jl_decode lib token = Some (?claims, jl_mac lib (jwtSecret cfg) ?claims)"
    by (simp add: codec)
  then show ?thesis
    by (simp add: verifyAccessToken_def jwt_verify_def)
qed

section \<open>Middleware\<close>

lemma authenticate_no_token:
  assumes "\<not> truthy (bearerToken req)"
  shows "authenticate cfg lib now db req = Reject (Failure 401 ''Authentication required'')"
  using assms by (cases "bearerToken req") (simp_all add: authenticate_def)

lemma authenticate_bad_token:
  assumes "bearerToken req = Some token" "token \<noteq> []" "verifyAccessToken cfg lib now token = None"
  shows "authenticate cfg lib now db req = Reject (Failure 401 ''Invalid or expired token'')"
  using assms by (simp add: authenticate_def)

lemma authenticate_unknown_user:
  assumes t: "bearerToken req = Some token" "token \<noteq> []"
      and p: "verifyAccessToken cfg lib now token = Some payload"
      and u: "jp_userId payload \<notin> au_id ` set (users db)"
  shows "authenticate cfg lib now db req = Reject (Failure 401 ''User not found'')"
proof -
  from u have "find (\<lambda>u. au_id u = jp_userId payload) (users db) = None"
    by (simp add: find_none_key)
  with t p show ?thesis by (simp add: authenticate_def)
qed

lemma authenticate_known_user:
  assumes t: "bearerToken req = Some token" "token \<noteq> []"
      and p: "verifyAccessToken cfg lib now token = Some payload"
      and u: "user \<in> set (users db)" "distinct (map au_id (users db))"
             "au_id user = jp_userId payload"
  shows "authenticate cfg lib now db req = Next (req\<lparr>req_user := Some user\<rparr>)"
proof -
  from u(1,2) have "find (\<lambda>u. au_id u = au_id user) (users db) = Some user"
    by (simp add: find_by_key)
  with t p u(3) show ?thesis by (simp add: authenticate_def)
qed

text \<open>
  C8. \<open>authenticate\<close> rejects with 401 "Authentication required" when neither a header
  starting with \<^verbatim>\<open>Bearer \<close> nor the cookie gives a token (more generally, when the token
  read is missing or empty), with 401 "Invalid or expired token" when the token does not
  verify, with 401 "User not found" when the verified user id is not in the user table,
  and otherwise goes on with the user's id, email and name attached.
\<close>

theorem authenticate_cases:
  "((\<forall>h. hdr_authorization req = Some h \<longrightarrow> take 7 h \<noteq> ''Bearer '')
      \<and> \<not> truthy (cookie_accessToken req)
    \<longrightarrow> authenticate cfg lib now db req = Reject (Failure 401 ''Authentication required''))
 \<and> (\<not> truthy (bearerToken req) \<longrightarrow>
      authenticate cfg lib now db req = Reject (Failure 401 ''Authentication required''))
 \<and> (\<forall>token. bearerToken req = Some token \<and> token \<noteq> [] \<longrightarrow>
      (verifyAccessToken cfg lib now token = None \<longrightarrow>
         authenticate cfg lib now db req = Reject (Failure 401 ''Invalid or expired token''))
    \<and> (\<forall>payload. verifyAccessToken cfg lib now token = Some payload \<longrightarrow>
         (jp_userId payload \<notin> au_id ` set (users db) \<longrightarrow>
            authenticate cfg lib now db req = Reject (Failure 401 ''User not found''))
       \<and> (\<forall>user \<in> set (users db).
            distinct (map au_id (users db)) \<and> au_id user = jp_userId payload \<longrightarrow>
            authenticate cfg lib now db req =
              Next (req\<lparr>req_user := Some \<lparr>au_id = au_id user, au_email = au_email user,
                                            au_name = au_name user\<rparr>\<rparr>))))"
proof (intro conjI)
  have "\<not> truthy (bearerToken req)"
    if "\<forall>h. hdr_authorization req = Some h \<longrightarrow> take 7 h \<noteq> ''Bearer ''"
       "\<not> truthy (cookie_accessToken req)"
    using that by (auto simp: bearerToken_def split: option.splits)
  then show "(\<forall>h. hdr_authorization req = Some h \<longrightarrow> take 7 h \<noteq> ''Bearer '')
      \<and> \<not> truthy (cookie_accessToken req)
    \<longrightarrow> authenticate cfg lib now db req = Reject (Failure 401 ''Authentication required'')"
    using authenticate_no_token by blast
next
  show "\<not> truthy (bearerToken req) \<longrightarrow>
      authenticate cfg lib now db req = Reject (Failure 401 ''Authentication required'')"
    using authenticate_no_token by blast
next
  show "\<forall>token. bearerToken req = Some token \<and> token \<noteq> [] \<longrightarrow>
      (verifyAccessToken cfg lib now token = None \<longrightarrow>
         authenticate cfg lib now db req = Reject (Failure 401 ''Invalid or expired token''))
    \<and> (\<forall>payload. verifyAccessToken cfg lib now token = Some payload \<longrightarrow>
         (jp_userId payload \<notin> au_id ` set (users db) \<longrightarrow>
            authenticate cfg lib now db req = Reject (Failure 401 ''User not found''))
       \<and> (\<forall>user \<in> set (users db).
            distinct (map au_id (users db)) \<and> au_id user = jp_userId payload \<longrightarrow>
            authenticate cfg lib now db req =
              Next (req\<lparr>req_user := Some \<lparr>au_id = au_id user, au_email = au_email user,
                                            au_name = au_name user\<rparr>\<rparr>)))"
  proof (intro allI impI conjI ballI; (elim conjE)?)
    fix token
    assume "bearerToken req = Some token" "token \<noteq> []" "verifyAccessToken cfg lib now token = None"
    then show "authenticate cfg lib now db req = Reject (Failure 401 ''Invalid or expired token'')"
      by (rule authenticate_bad_token)
  next
    fix token payload
    assume "bearerToken req = Some token" "token \<noteq> []"
      "verifyAccessToken cfg lib now token = Some payload"
      "jp_userId payload \<notin> au_id ` set (users db)"
    then show "authenticate cfg lib now db req = Reject (Failure 401 ''User not found'')"
      by (rule authenticate_unknown_user)
  next
    fix token payload user
    assume "bearerToken req = Some token" "token \<noteq> []"
      "verifyAccessToken cfg lib now token = Some payload"
      "user \<in> set (users db)" "distinct (map au_id (users db))"
      "au_id user = jp_userId payload"
    then have "authenticate cfg lib now db req = Next (req\<lparr>req_user := Some user\<rparr>)"
      by (rule authenticate_known_user)
    then show "authenticate cfg lib now db req =
        Next (req\<lparr>req_user := Some \<lparr>au_id = au_id user, au_email = au_email user,
                                      au_name = au_name user\<rparr>\<rparr>)"
      by simp
  qed
qed

text \<open>
  C9. With a membership attached, \<open>requireRole\<close> lets the request through exactly when the
  membership's role is one of the listed roles and otherwise rejects with 403
  "Insufficient permissions"; an owner is rejected by a list that does not name
  \<^verbatim>\<open>OWNER\<close>.
\<close>

theorem requireRole_flat:
  assumes "req_workspaceMember req = Some member"
  shows "requireRole roles req =
           (if roleName (wm_role member) \<in> set roles then Next req
            else Reject (Failure 403 ''Insufficient permissions''))
       \<and> (wm_role member = OWNER \<and> ''OWNER'' \<notin> set roles \<longrightarrow>
            requireRole roles req = Reject (Failure 403 ''Insufficient permissions''))"
  using assms by (auto simp: requireRole_def roleName_def)

section \<open>Workspace controller\<close>

lemma find_SomeD: "find P xs = Some x \<Longrightarrow> x \<in> set xs \<and> P x"
  by (induction xs) (auto split: if_splits)

text \<open>
  C10. An authenticated user who accepts a pending, unexpired invitation whose email differs
  from the user's own after lower-casing gets 403 and the database is left as it is: the
  invitation stays pending and no member is created.
\<close>

theorem acceptInvitation_wrong_email:
  assumes user: "req_user req = Some user"
      and ok: "invitations_ok (invitations db)"
      and inv: "invitation \<in> set (invitations db)" "inv_token invitation = body_token req"
      and pending: "inv_status invitation = PENDING"
      and unexpired: "\<not> inv_expiresAt invitation < now"
      and differs: "toLowerCase (inv_email invitation) \<noteq> toLowerCase (au_email user)"
  shows "acceptInvitation now newMemberId db req =
           (Failure 403 ''This invitation is for a different email address'', db)"
proof -
  from ok inv(1) have "find (\<lambda>i. inv_token i = inv_token invitation) (invitations db) = Some invitation"
    by (simp add: invitations_ok_def find_by_key)
  with inv(2) have "find (\<lambda>i. inv_token i = body_token req) (invitations db) = Some invitation"
    by simp
  with user pending unexpired differs show ?thesis
    by (simp add: acceptInvitation_def)
qed

lemma removeMember_effect:
  "(\<exists>code msg. removeMember db req = (Failure code msg, db))
   \<or> (\<exists>ws m. find (\<lambda>m. wm_id m = param_memberId req \<and> wm_workspaceId m = ws)
                (workspaceMembers db) = Some m
            \<and> \<not> wm_isOwner m
            \<and> removeMember db req =
                (Success 200 (Message ''Member removed successfully''),
                 db\<lparr>workspaceMembers :=
                      filter (\<lambda>m. wm_id m \<noteq> param_memberId req) (workspaceMembers db)\<rparr>))"
  by (auto simp: removeMember_def split: option.splits)

text \<open>
  C7. Whatever the request, \<open>removeMember\<close> aimed at the identifier of a member flagged
  \<open>isOwner\<close> fails and changes nothing; every owner member is still a member afterwards,
  and the owner members of every workspace are the same as before.
\<close>

theorem removeMember_owner_protected:
  assumes ok: "members_ok (workspaceMembers db)"
      and owner: "owner \<in> set (workspaceMembers db)" "wm_isOwner owner"
  shows "(param_memberId req = wm_id owner \<longrightarrow>
            (\<exists>code msg. removeMember db req = (Failure code msg, db)))
       \<and> owner \<in> set (workspaceMembers (snd (removeMember db req)))
       \<and> owners (snd (removeMember db req)) workspaceId = owners db workspaceId"
proof -
  consider (failed) code msg where "removeMember db req = (Failure code msg, db)"
    | (removed) ws m where
        "find (\<lambda>m. wm_id m = param_memberId req \<and> wm_workspaceId m = ws)
           (workspaceMembers db) = Some m"
        "\<not> wm_isOwner m"
        "removeMember db req =
           (Success 200 (Message ''Member removed successfully''),
            db\<lparr>workspaceMembers :=
                 filter (\<lambda>m. wm_id m \<noteq> param_memberId req) (workspaceMembers db)\<rparr>)"
    using removeMember_effect [of db req] by blast
  then show ?thesis
  proof cases
    case failed
    with owner show ?thesis by simp
  next
    case removed
    from removed(1) have m: "m \<in> set (workspaceMembers db)" "wm_id m = param_memberId req"
      by (auto dest: find_SomeD)
    have others: "wm_id x \<noteq> param_memberId req"
      if "x \<in> set (workspaceMembers db)" "wm_isOwner x" for x
    proof
      assume "wm_id x = param_memberId req"
      with ok m that have "x = m" by (auto simp: members_ok_def intro: same_key_same_row)
      with removed(2) that show False by simp
    qed
    have "filter (\<lambda>m. wm_isOwner m \<and> wm_workspaceId m = workspaceId)
            (filter (\<lambda>m. wm_id m \<noteq> param_memberId req) (workspaceMembers db))
          = filter (\<lambda>m. wm_isOwner m \<and> wm_workspaceId m = workspaceId) (workspaceMembers db)"
      using others by (auto simp: filter_filter intro!: filter_cong)
    moreover from others owner have "wm_id owner \<noteq> param_memberId req" by blast
    ultimately show ?thesis using removed(3) owner
      by (auto simp: owners_def)
  qed
qed

section \<open>Workspace types\<close>

lemma find_append_found:
  "find P xs = Some x \<Longrightarrow> find P (xs @ ys) = Some x"
  by (induction xs) (auto split: if_splits)

lemma find_map_key:
  "(\<And>x. x \<in> set xs \<Longrightarrow> f (g x) = f x)
   \<Longrightarrow> find (\<lambda>x. f x = k) (map g xs) = map_option g (find (\<lambda>x. f x = k) xs)"
  by (induction xs) auto

lemma workspaceType_append:
  "workspaceType db workspaceId = Some t
   \<Longrightarrow> workspaceType (db\<lparr>workspaces := workspaces db @ extra\<rparr>) workspaceId = Some t"
  by (auto simp: workspaceType_def dest: find_append_found)

lemma workspaceType_same:
  "workspaces db' = workspaces db \<Longrightarrow> workspaceType db' workspaceId = workspaceType db workspaceId"
  by (simp add: workspaceType_def)

lemma workspaceType_map:
  assumes "\<And>w. w \<in> set (workspaces db) \<Longrightarrow> ws_id (g w) = ws_id w"
      and "\<And>w. find (\<lambda>w. ws_id w = workspaceId) (workspaces db) = Some w
             \<Longrightarrow> ws_type w = PARTNERSHIP \<Longrightarrow> ws_type (g w) = PARTNERSHIP"
      and "workspaceType db workspaceId = Some PARTNERSHIP"
  shows "workspaceType (db\<lparr>workspaces := map g (workspaces db)\<rparr>) workspaceId = Some PARTNERSHIP"
proof -
  from assms(3) obtain w where w: "find (\<lambda>w. ws_id w = workspaceId) (workspaces db) = Some w"
                                  "ws_type w = PARTNERSHIP"
    by (auto simp: workspaceType_def)
  with assms(2) have "ws_type (g w) = PARTNERSHIP" by simp
  moreover have "find (\<lambda>w. ws_id w = workspaceId) (map g (workspaces db)) = Some (g w)"
    using find_map_key [of "workspaces db" ws_id g workspaceId] assms(1) w by simp
  ultimately show ?thesis by (simp add: workspaceType_def)
qed

lemma workspaces_refreshToken:
  "workspaces (snd (refreshToken cfg lib now uuid newId db req)) = workspaces db"
  by (auto simp: refreshToken_def verifyRefreshToken_def revokeRefreshToken_def
        generateTokenPair_def generateRefreshToken_def Let_def
      split: option.splits prod.splits if_splits)

lemma workspaces_issue:
  "generateTokenPair cfg lib now uuid newId userId email db = Some (ts, db')
   \<Longrightarrow> workspaces db' = workspaces db"
  by (auto simp: generateTokenPair_def generateRefreshToken_def Let_def
      split: option.splits prod.splits if_splits)

lemma workspaces_invitePartner:
  "workspaces (snd (invitePartner cfg now i t db req)) = workspaces db"
  by (simp add: invitePartner_def Let_def split: option.splits)

lemma workspaces_updateProfitSplit:
  "workspaces (snd (updateProfitSplit db req)) = workspaces db"
  by (simp add: updateProfitSplit_def Let_def split: option.splits)

lemma workspaces_removeMember:
  "workspaces (snd (removeMember db req)) = workspaces db"
  by (simp add: removeMember_def Let_def split: option.splits)

lemma workspaces_cancelInvitation:
  "workspaces (snd (cancelInvitation db req)) = workspaces db"
  by (simp add: cancelInvitation_def Let_def split: option.splits)

lemma workspaceType_completeOnboarding:
  "workspaceType db workspaceId = Some t
   \<Longrightarrow> workspaceType (snd (completeOnboarding w m db req)) workspaceId = Some t"
  by (auto simp: completeOnboarding_def Let_def workspaceType_def
      split: option.splits dest: find_append_found)

lemma workspaceType_acceptInvitation:
  assumes "workspaceType db workspaceId = Some PARTNERSHIP"
  shows "workspaceType (snd (acceptInvitation now m db req)) workspaceId = Some PARTNERSHIP"
proof -
  have "workspaceType (db\<lparr>workspaces := map (\<lambda>w. if ws_id w = k then w\<lparr>ws_type := PARTNERSHIP\<rparr> else w)
            (workspaces db)\<rparr>) workspaceId = Some PARTNERSHIP" for k
    using assms by (intro workspaceType_map) auto
  then have "workspaceType (db\<lparr>workspaces := map (\<lambda>w. if ws_id w = k then w\<lparr>ws_type := PARTNERSHIP\<rparr> else w)
            (workspaces db), invitations := is, workspaceMembers := ms\<rparr>) workspaceId = Some PARTNERSHIP"
    for k "is" ms
    by (simp add: workspaceType_def)
  with assms show ?thesis
    by (auto simp: acceptInvitation_def Let_def workspaceType_def split: option.splits)
qed

lemma parseWorkspaceType_partnership:
  "parseWorkspaceType s = Some t \<Longrightarrow> s \<noteq> ''SOLE_TRADER'' \<Longrightarrow> t = PARTNERSHIP"
  by (auto simp: parseWorkspaceType_def split: if_splits)

lemma workspaceType_updateWorkspace:
  assumes p: "workspaceType db workspaceId = Some PARTNERSHIP"
      and t: "body_type req \<noteq> Some ''SOLE_TRADER''"
  shows "workspaceType (snd (updateWorkspace db req)) workspaceId = Some PARTNERSHIP"
proof -
  have step: "workspaceType (db\<lparr>workspaces := map (\<lambda>w. if ws_id w = k then new else w)
                 (workspaces db)\<rparr>) workspaceId = Some PARTNERSHIP"
    if "ws_id new = k" "k = workspaceId \<Longrightarrow> ws_type new = PARTNERSHIP" for k new
    using that p by (intro workspaceType_map) (auto dest: find_SomeD)
  show ?thesis
  proof (cases "req_workspace req")
    case None
    with p show ?thesis by (simp add: updateWorkspace_def)
  next
    case (Some workspace)
    note ws = this
    show ?thesis
    proof (cases "req_workspaceMember req")
      case None
      with p ws show ?thesis by (simp add: updateWorkspace_def)
    next
      case (Some member)
      note mem = this
      show ?thesis
      proof (cases "find (\<lambda>w. ws_id w = ws_id workspace) (workspaces db)")
        case None
        with p ws mem show ?thesis by (simp add: updateWorkspace_def)
      next
        case (Some row)
        then have id: "ws_id row = ws_id workspace" by (auto dest: find_SomeD)
        have ty: "ws_type row = PARTNERSHIP" if "ws_id workspace = workspaceId"
          using that p Some by (simp add: workspaceType_def)
        define named where
          "named = (if truthy (body_name req) then row\<lparr>ws_name := the (body_name req)\<rparr> else row)"
        have n: "ws_id named = ws_id workspace"
                "ws_id workspace = workspaceId \<Longrightarrow> ws_type named = PARTNERSHIP"
          using id ty by (auto simp: named_def)
        have u: "ws_id (named\<lparr>ws_type := t'\<rparr>) = ws_id workspace" for t'
          using n by simp
        have pt: "t' = PARTNERSHIP"
          if "truthy (body_type req)" "parseWorkspaceType (the (body_type req)) = Some t'" for t'
          using that t by (cases "body_type req") (auto dest: parseWorkspaceType_partnership)
        show ?thesis
          using p ws mem Some step [of named "ws_id workspace"] n
            step [of "named\<lparr>ws_type := PARTNERSHIP\<rparr>" "ws_id workspace"] pt
          by (auto simp: updateWorkspace_def Let_def named_def [symmetric] split: option.splits)
      qed
    qed
  qed
qed

lemma workspaceType_perform:
  assumes "workspaceType db workspaceId = Some PARTNERSHIP" and "\<not> setsSoleTrader operation"
  shows "workspaceType (perform operation db) workspaceId = Some PARTNERSHIP"
proof (cases operation)
  case (OpIssueTokenPair cfg lib now uuid newId userId email)
  with assms show ?thesis
    by (auto split: option.splits dest!: workspaces_issue simp: workspaceType_def)
next
  case (OpCompleteOnboarding w m req)
  with assms show ?thesis by (simp add: workspaceType_completeOnboarding)
next
  case (OpUpdateWorkspace req)
  with assms show ?thesis by (simp add: workspaceType_updateWorkspace)
next
  case (OpAcceptInvitation now m req)
  with assms show ?thesis by (simp add: workspaceType_acceptInvitation)
qed (use assms in \<open>simp_all add: workspaceType_def workspaces_refreshToken workspaces_invitePartner
      workspaces_updateProfitSplit workspaces_removeMember workspaces_cancelInvitation
      logout_def logoutAll_def revokeRefreshToken_def revokeAllUserTokens_def
      cleanupExpiredTokens_def split: option.splits\<close>)

text \<open>
  C5, as amended. A workspace of type \<open>PARTNERSHIP\<close> keeps that type through every sequence
  of operations in which no workspace update names \<^verbatim>\<open>SOLE_TRADER\<close> as the new type; in
  particular accepting an invitation never turns a partnership back.
\<close>

theorem partnership_is_kept:
  assumes "workspaceType db workspaceId = Some PARTNERSHIP"
      and "\<forall>operation \<in> set ops. \<not> setsSoleTrader operation"
  shows "workspaceType (run ops db) workspaceId = Some PARTNERSHIP"
  using assms
proof (induction ops arbitrary: db)
  case Nil
  then show ?case by simp
next
  case (Cons operation ops)
  then have "workspaceType (perform operation db) workspaceId = Some PARTNERSHIP"
    by (simp add: workspaceType_perform)
  with Cons show ?case by simp
qed

section \<open>Invitations\<close>

lemma invitations_refreshToken:
  "invitations (snd (refreshToken cfg lib now uuid newId db req)) = invitations db"
  by (auto simp: refreshToken_def verifyRefreshToken_def revokeRefreshToken_def
        generateTokenPair_def generateRefreshToken_def Let_def
      split: option.splits prod.splits if_splits)

lemma invitations_issue:
  "generateTokenPair cfg lib now uuid newId userId email db = Some (ts, db')
   \<Longrightarrow> invitations db' = invitations db"
  by (auto simp: generateTokenPair_def generateRefreshToken_def Let_def
      split: option.splits prod.splits if_splits)

lemma invitations_completeOnboarding:
  "invitations (snd (completeOnboarding w m db req)) = invitations db"
  by (simp add: completeOnboarding_def Let_def split: option.splits)

lemma invitations_updateWorkspace:
  "invitations (snd (updateWorkspace db req)) = invitations db"
  by (simp add: updateWorkspace_def Let_def split: option.splits)

lemma invitations_updateProfitSplit:
  "invitations (snd (updateProfitSplit db req)) = invitations db"
  by (simp add: updateProfitSplit_def Let_def split: option.splits)

lemma invitations_removeMember:
  "invitations (snd (removeMember db req)) = invitations db"
  by (simp add: removeMember_def Let_def split: option.splits)

lemma invitations_invitePartner:
  "invitations (snd (invitePartner cfg now i t db req)) = invitations db
   \<or> (\<exists>new. invitations (snd (invitePartner cfg now i t db req)) = invitations db @ [new]
          \<and> inv_id new \<notin> inv_id ` set (invitations db)
          \<and> inv_token new \<notin> inv_token ` set (invitations db))"
  by (auto simp: invitePartner_def Let_def list_ex_iff split: option.splits)

lemma invitations_acceptInvitation:
  "invitations (snd (acceptInvitation now m db req)) = invitations db
   \<or> (\<exists>found g. found \<in> set (invitations db) \<and> inv_status found = PENDING
          \<and> (\<forall>i. inv_id (g i) = inv_id i \<and> inv_token (g i) = inv_token i)
          \<and> invitations (snd (acceptInvitation now m db req))
              = map (\<lambda>i. if inv_id i = inv_id found then g i else i) (invitations db))"
proof (cases "req_user req")
  case None
  then show ?thesis by (simp add: acceptInvitation_def)
next
  case (Some user)
  note user = this
  show ?thesis
  proof (cases "find (\<lambda>i. inv_token i = body_token req) (invitations db)")
    case None
    with user show ?thesis by (simp add: acceptInvitation_def)
  next
    case (Some found)
    then have f: "found \<in> set (invitations db)" by (auto dest: find_SomeD)
    show ?thesis
    proof (cases "inv_status found = PENDING")
      case False
      with user Some show ?thesis by (simp add: acceptInvitation_def)
    next
      case True
      note pending = this
      show ?thesis
      proof (cases "inv_expiresAt found < now")
        case True
        have "invitations (snd (acceptInvitation now m db req))
                = map (\<lambda>i. if inv_id i = inv_id found then i\<lparr>inv_status := EXPIRED\<rparr> else i)
                    (invitations db)"
          using user Some pending True by (simp add: acceptInvitation_def)
        with f pending show ?thesis
          by (intro disjI2 exI [of _ found] exI [of _ "\<lambda>i. i\<lparr>inv_status := EXPIRED\<rparr>"]) simp
      next
        case False
        note fresh = this
        show ?thesis
        proof (cases "invitations (snd (acceptInvitation now m db req)) = invitations db")
          case True
          then show ?thesis by simp
        next
          case False
          then have "invitations (snd (acceptInvitation now m db req))
                = map (\<lambda>i. if inv_id i = inv_id found
                            then i\<lparr>inv_status := ACCEPTED, inv_invitedUserId := Some (au_id user)\<rparr>
                            else i) (invitations db)"
            using user Some pending fresh
            by (simp add: acceptInvitation_def Let_def split: option.splits if_splits)
          with f pending show ?thesis
            by (intro disjI2 exI [of _ found]
                  exI [of _ "\<lambda>i. i\<lparr>inv_status := ACCEPTED, inv_invitedUserId := Some (au_id user)\<rparr>"])
               simp
        qed
      qed
    qed
  qed
qed

lemma invitations_cancelInvitation:
  "invitations (snd (cancelInvitation db req)) = invitations db
   \<or> (\<exists>found. found \<in> set (invitations db) \<and> inv_status found = PENDING
          \<and> invitations (snd (cancelInvitation db req))
              = filter (\<lambda>i. inv_id i \<noteq> inv_id found) (invitations db))"
  by (auto simp: cancelInvitation_def split: option.splits dest!: find_SomeD)

lemma invitations_perform:
  "invitations (perform operation db) = invitations db
   \<or> (\<exists>new. invitations (perform operation db) = invitations db @ [new]
          \<and> inv_id new \<notin> inv_id ` set (invitations db)
          \<and> inv_token new \<notin> inv_token ` set (invitations db))
   \<or> (\<exists>found g. found \<in> set (invitations db) \<and> inv_status found = PENDING
          \<and> (\<forall>i. inv_id (g i) = inv_id i \<and> inv_token (g i) = inv_token i)
          \<and> invitations (perform operation db)
              = map (\<lambda>i. if inv_id i = inv_id found then g i else i) (invitations db))
   \<or> (\<exists>found. found \<in> set (invitations db) \<and> inv_status found = PENDING
          \<and> invitations (perform operation db)
              = filter (\<lambda>i. inv_id i \<noteq> inv_id found) (invitations db))"
proof (cases operation)
  case (OpIssueTokenPair cfg lib now uuid newId userId email)
  then show ?thesis by (auto split: option.splits dest!: invitations_issue)
next
  case (OpInvitePartner cfg now i t req)
  then show ?thesis using invitations_invitePartner [of cfg now i t db req] by auto
next
  case (OpAcceptInvitation now m req)
  then show ?thesis using invitations_acceptInvitation [of now m db req] by auto
next
  case (OpCancelInvitation req)
  then show ?thesis using invitations_cancelInvitation [of db req] by auto
qed (simp_all add: invitations_refreshToken invitations_completeOnboarding
      invitations_updateWorkspace invitations_updateProfitSplit invitations_removeMember
      logout_def logoutAll_def revokeRefreshToken_def revokeAllUserTokens_def
      cleanupExpiredTokens_def split: option.splits)

lemma invitations_ok_map:
  assumes "invitations_ok rows" and "\<forall>i. inv_id (g i) = inv_id i \<and> inv_token (g i) = inv_token i"
  shows "invitations_ok (map (\<lambda>i. if inv_id i = k then g i else i) rows)"
proof -
  have "map inv_id (map (\<lambda>i. if inv_id i = k then g i else i) rows) = map inv_id rows"
       "map inv_token (map (\<lambda>i. if inv_id i = k then g i else i) rows) = map inv_token rows"
    using assms(2) by (induction rows) auto
  with assms(1) show ?thesis by (simp only: invitations_ok_def)
qed

lemma terminal_perform:
  assumes ok: "invitations_ok (invitations db)"
  shows "invitations_ok (invitations (perform operation db))
       \<and> (\<forall>i \<in> set (invitations db). inv_status i \<noteq> PENDING
              \<longrightarrow> i \<in> set (invitations (perform operation db)))"
proof -
  consider (same) "invitations (perform operation db) = invitations db"
    | (created) new where "invitations (perform operation db) = invitations db @ [new]"
        "inv_id new \<notin> inv_id ` set (invitations db)"
        "inv_token new \<notin> inv_token ` set (invitations db)"
    | (updated) found g where "found \<in> set (invitations db)" "inv_status found = PENDING"
        "\<forall>i. inv_id (g i) = inv_id i \<and> inv_token (g i) = inv_token i"
        "invitations (perform operation db)
           = map (\<lambda>i. if inv_id i = inv_id found then g i else i) (invitations db)"
    | (deleted) found where "found \<in> set (invitations db)" "inv_status found = PENDING"
        "invitations (perform operation db)
           = filter (\<lambda>i. inv_id i \<noteq> inv_id found) (invitations db)"
    using invitations_perform [of operation db] by blast
  then show ?thesis
  proof cases
    case same
    with ok show ?thesis by simp
  next
    case created
    with ok show ?thesis by (auto simp: invitations_ok_def)
  next
    case updated
    have unique: "i = found" if "i \<in> set (invitations db)" "inv_id i = inv_id found" for i
      using ok updated(1) that by (auto simp: invitations_ok_def intro: same_key_same_row)
    have "i \<in> set (invitations (perform operation db))"
      if "i \<in> set (invitations db)" "inv_status i \<noteq> PENDING" for i
    proof -
      from that unique updated(2) have "inv_id i \<noteq> inv_id found" by auto
      with that(1) show ?thesis unfolding updated(4) by (auto simp: image_iff intro!: bexI [of _ i])
    qed
    moreover have "invitations_ok (invitations (perform operation db))"
      unfolding updated(4) using ok updated(3) by (rule invitations_ok_map)
    ultimately show ?thesis by blast
  next
    case deleted
    have unique: "i = found" if "i \<in> set (invitations db)" "inv_id i = inv_id found" for i
      using ok deleted(1) that by (auto simp: invitations_ok_def intro: same_key_same_row)
    have "i \<in> set (invitations (perform operation db))"
      if "i \<in> set (invitations db)" "inv_status i \<noteq> PENDING" for i
    proof -
      from that unique deleted(2) have "inv_id i \<noteq> inv_id found" by auto
      with that(1) show ?thesis unfolding deleted(3) by simp
    qed
    moreover have "invitations_ok (invitations (perform operation db))"
      unfolding deleted(3) using ok by (simp add: invitations_ok_def distinct_map_filter)
    ultimately show ?thesis by blast
  qed
qed

lemma terminal_run:
  "invitations_ok (invitations db) \<Longrightarrow> i \<in> set (invitations db) \<Longrightarrow> inv_status i \<noteq> PENDING
   \<Longrightarrow> i \<in> set (invitations (run ops db))"
proof (induction ops arbitrary: db)
  case Nil
  then show ?case by simp
next
  case (Cons operation ops)
  from terminal_perform [OF Cons.prems(1), of operation] Cons.prems
  have "invitations_ok (invitations (perform operation db))"
       "i \<in> set (invitations (perform operation db))" by auto
  with Cons.IH Cons.prems(3) show ?case by simp
qed

text \<open>
  C6, as amended. \<open>cancelInvitation\<close> by an owner or admin of the workspace deletes the
  pending invitation: it answers 200 and the invitation's row is gone, no row is marked
  \<open>CANCELLED\<close>. An invitation whose status is not \<open>PENDING\<close> is still in the table,
  unchanged, after any sequence of operations.
\<close>

theorem cancelInvitation_deletes:
  assumes ok: "invitations_ok (invitations db)"
  shows "(\<forall>invitation \<in> set (invitations db). \<forall>workspace member.
            req_workspace req = Some workspace \<and> req_workspaceMember req = Some member
            \<and> wm_role member \<in> {OWNER, ADMIN}
            \<and> inv_id invitation = param_invitationId req
            \<and> inv_workspaceId invitation = ws_id workspace
            \<and> inv_status invitation = PENDING
            \<longrightarrow> cancelInvitation db req =
                  (Success 200 (Message ''Invitation cancelled''),
                   db\<lparr>invitations := remove1 invitation (invitations db)\<rparr>))
       \<and> (\<forall>invitation \<in> set (invitations db). inv_status invitation \<noteq> PENDING
            \<longrightarrow> invitation \<in> set (invitations (run ops db)))"
proof (intro conjI ballI allI impI; (elim conjE)?)
  fix invitation workspace member
  assume i: "invitation \<in> set (invitations db)"
     and r: "req_workspace req = Some workspace" "req_workspaceMember req = Some member"
            "wm_role member \<in> {OWNER, ADMIN}"
     and k: "inv_id invitation = param_invitationId req"
            "inv_workspaceId invitation = ws_id workspace" "inv_status invitation = PENDING"
  from ok i have one: "\<And>x. x \<in> set (invitations db) \<Longrightarrow> inv_id x = inv_id invitation \<Longrightarrow> x = invitation"
    by (auto simp: invitations_ok_def intro: same_key_same_row)
  have "find (\<lambda>i. inv_id i = param_invitationId req \<and> inv_workspaceId i = ws_id workspace
                   \<and> inv_status i = PENDING) (invitations db) = Some invitation"
  proof (cases "find (\<lambda>i. inv_id i = param_invitationId req \<and> inv_workspaceId i = ws_id workspace
                   \<and> inv_status i = PENDING) (invitations db)")
    case None
    with i k show ?thesis by (auto simp: find_None_iff)
  next
    case (Some x)
    with one k show ?thesis by (auto dest!: find_SomeD)
  qed
  moreover from ok i
  have "filter (\<lambda>x. inv_id x \<noteq> inv_id invitation) (invitations db) = remove1 invitation (invitations db)"
    by (simp add: invitations_ok_def filter_by_key)
  ultimately show "cancelInvitation db req =
                  (Success 200 (Message ''Invitation cancelled''),
                   db\<lparr>invitations := remove1 invitation (invitations db)\<rparr>)"
    using r k by (auto simp: cancelInvitation_def roleName_def)
next
  fix invitation
  assume "invitation \<in> set (invitations db)" "inv_status invitation \<noteq> PENDING"
  with ok show "invitation \<in> set (invitations (run ops db))" by (rule terminal_run)
qed

section \<open>The example serialisation\<close>

lemma takeWhile_marks:
  "c \<noteq> d \<Longrightarrow> takeWhile (\<lambda>x. x = c) (replicate n c @ d # rest) = replicate n c"
  by (induction n) auto

lemma dropWhile_marks:
  "c \<noteq> d \<Longrightarrow> dropWhile (\<lambda>x. x = c) (replicate n c @ d # rest) = d # rest"
  by (induction n) auto

lemma decodeField_encodeField: "decodeField (encodeField s @ rest) = Some (s, rest)"
  by (simp add: decodeField_def encodeField_def takeWhile_marks dropWhile_marks)

lemma decodeInt_encodeInt: "decodeInt (encodeInt i) = i"
  by (cases "nat i") (auto simp: decodeInt_def encodeInt_def split: list.splits)

lemma example_codec: "exampleDecode (exampleEncode claims sg) = Some (claims, sg)"
  using decodeField_encodeField [of sg "[]"]
  by (simp add: exampleDecode_def exampleEncode_def decodeField_encodeField decodeInt_encodeInt)

section \<open>Examples\<close>

lemmas example_defs =
  exampleDb_def exampleConfig_def emptyRequest_def alice_def bob_def alpha_def beta_def
  aliceInAlpha_def bobInBeta_def aliceInBeta_def bobInvited_def aliceAccepted_def
  bobOnBeta_def aliceOnAlpha_def

lemma example_ledger_ok: "ledger_ok (refreshTokens exampleDb)"
  by (simp add: ledger_ok_def exampleDb_def)

lemma example_members_ok: "members_ok (workspaceMembers exampleDb)"
  by (simp add: members_ok_def example_defs)

lemma example_invitations_ok: "invitations_ok (invitations exampleDb)"
  by (simp add: invitations_ok_def example_defs)

theorem verifyRefreshToken_cases_witness:
  "ledger_ok (refreshTokens exampleDb)
   \<and> verifyRefreshToken 100 ''t9'' exampleDb = (None, exampleDb)
   \<and> verifyRefreshToken 100 ''t2'' exampleDb =
       (None, exampleDb\<lparr>refreshTokens :=
          [\<lparr>rt_id = ''r1'', rt_token = ''t1'', rt_userId = ''u1'', rt_expiresAt = 1000\<rparr>,
           \<lparr>rt_id = ''r3'', rt_token = ''t3'', rt_userId = ''u2'', rt_expiresAt = 1000\<rparr>]\<rparr>)
   \<and> verifyRefreshToken 100 ''t1'' exampleDb = (Some ''u1'', exampleDb)"
  using example_ledger_ok
    verifyRefreshToken_cases [OF example_ledger_ok, of "''t9''" 100]
    verifyRefreshToken_cases [OF example_ledger_ok, of "''t2''" 100]
    verifyRefreshToken_cases [OF example_ledger_ok, of "''t1''" 100]
  by (simp add: exampleDb_def)

theorem revokeAllUserTokens_invalidates_witness:
  "ledger_ok (refreshTokens exampleDb)
   \<and> verifyRefreshToken 100 ''t1'' (revokeAllUserTokens ''u1'' exampleDb)
       = (None, revokeAllUserTokens ''u1'' exampleDb)
   \<and> verifyRefreshToken 100 ''t2'' (revokeAllUserTokens ''u1'' exampleDb)
       = (None, revokeAllUserTokens ''u1'' exampleDb)
   \<and> fst (verifyRefreshToken 100 ''t3'' (revokeAllUserTokens ''u1'' exampleDb))
       = fst (verifyRefreshToken 100 ''t3'' exampleDb)"
  using example_ledger_ok
    revokeAllUserTokens_invalidates [OF example_ledger_ok, of "''u1''" 100]
  by (simp add: exampleDb_def)

theorem rotation_consumes_token_witness:
  "fst (verifyRefreshToken 100 ''t1'' exampleDb) = Some ''u1''
   \<and> fst (verifyRefreshToken 200 ''t1''
        (run [OpLogoutAll bobOnBeta,
              OpIssueTokenPair exampleConfig exampleLib 300 ''t8'' ''r8'' ''u1'' ''alice@x.com'',
              OpCleanupExpiredTokens 400]
           (snd (refreshToken exampleConfig exampleLib 100 ''t9'' ''r9'' exampleDb
                   (emptyRequest\<lparr>cookie_refreshToken := Some ''t1''\<rparr>))))) = None"
proof -
  let ?req = "emptyRequest\<lparr>cookie_refreshToken := Some ''t1''\<rparr>"
  let ?ops = "[OpLogoutAll bobOnBeta,
              OpIssueTokenPair exampleConfig exampleLib 300 ''t8'' ''r8'' ''u1'' ''alice@x.com'',
              OpCleanupExpiredTokens 400]"
  have "\<exists>payload db'. refreshToken exampleConfig exampleLib 100 ''t9'' ''r9'' exampleDb ?req
          = (Success 200 payload, db')"
    by (simp add: refreshToken_def verifyRefreshToken_def revokeRefreshToken_def
          generateTokenPair_def generateAccessToken_def jwt_sign_def generateRefreshToken_def
          exampleLib_def example_defs Let_def)
  then obtain payload db' where ok:
    "refreshToken exampleConfig exampleLib 100 ''t9'' ''r9'' exampleDb ?req = (Success 200 payload, db')"
    by blast
  have tok: "presentedRefreshToken ?req = Some ''t1''"
    by (simp add: presentedRefreshToken_def emptyRequest_def)
  have fresh: "''t9'' \<noteq> ''t1''" by simp
  have later: "\<forall>operation \<in> set ?ops. issuedToken operation \<noteq> Some ''t1''" by simp
  have "fst (verifyRefreshToken 100 ''t1'' exampleDb) = Some ''u1''"
    by (simp add: verifyRefreshToken_def exampleDb_def)
  with rotation_consumes_token [OF ok tok fresh later, of 200] ok show ?thesis by simp
qed

theorem access_token_roundtrip_witness:
  "generateAccessToken exampleConfig exampleLib 5000
      \<lparr>jp_userId = ''u1'', jp_email = ''alice@x.com''\<rparr> = Some aliceAccessToken
   \<and> verifyAccessToken exampleConfig exampleLib 60000 aliceAccessToken
       = Some \<lparr>jp_userId = ''u1'', jp_email = ''alice@x.com''\<rparr>
   \<and> verifyAccessToken exampleConfig exampleLib 905000 aliceAccessToken = None"
proof -
  have codec: "\<And>claims sg. jl_decode exampleLib (jl_encode exampleLib claims sg) = Some (claims, sg)"
    by (simp add: exampleLib_def example_codec)
  have span: "jl_timespan exampleLib (jwtExpiresIn exampleConfig) = Some 900"
    by (simp add: exampleLib_def exampleConfig_def)
  have issued: "generateAccessToken exampleConfig exampleLib 5000
      \<lparr>jp_userId = ''u1'', jp_email = ''alice@x.com''\<rparr> = Some aliceAccessToken"
    by (simp add: generateAccessToken_def jwt_sign_def exampleLib_def exampleConfig_def
          aliceAccessToken_def Let_def)
  from access_token_roundtrip [OF codec span issued, of 60000]
       access_token_roundtrip [OF codec span issued, of 905000] issued
  show ?thesis by simp
qed

theorem authenticate_cases_witness:
  "authenticate exampleConfig exampleLib 60000 exampleDb emptyRequest
     = Reject (Failure 401 ''Authentication required'')
   \<and> authenticate exampleConfig exampleLib 60000 exampleDb
       (emptyRequest\<lparr>hdr_authorization := Some ''Bearer '', cookie_accessToken := Some ''abc''\<rparr>)
     = Reject (Failure 401 ''Authentication required'')
   \<and> authenticate exampleConfig exampleLib 60000 exampleDb
       (emptyRequest\<lparr>cookie_accessToken := Some ''garbage''\<rparr>)
     = Reject (Failure 401 ''Invalid or expired token'')
   \<and> authenticate exampleConfig exampleLib 905000 exampleDb
       (emptyRequest\<lparr>hdr_authorization := Some (''Bearer '' @ aliceAccessToken)\<rparr>)
     = Reject (Failure 401 ''Invalid or expired token'')
   \<and> authenticate exampleConfig exampleLib 60000 (exampleDb\<lparr>users := [bob]\<rparr>)
       (emptyRequest\<lparr>hdr_authorization := Some (''Bearer '' @ aliceAccessToken)\<rparr>)
     = Reject (Failure 401 ''User not found'')
   \<and> authenticate exampleConfig exampleLib 60000 exampleDb
       (emptyRequest\<lparr>hdr_authorization := Some (''Bearer '' @ aliceAccessToken)\<rparr>)
     = Next (emptyRequest\<lparr>hdr_authorization := Some (''Bearer '' @ aliceAccessToken),
                           req_user := Some alice\<rparr>)"
proof -
  let ?bearer = "emptyRequest\<lparr>hdr_authorization := Some (''Bearer '' @ aliceAccessToken)\<rparr>"
  have nonempty: "aliceAccessToken \<noteq> []"
    by (simp add: aliceAccessToken_def exampleEncode_def encodeField_def Let_def)
  have tok: "bearerToken ?bearer = Some aliceAccessToken"
    by (simp add: bearerToken_def emptyRequest_def)
  have good: "verifyAccessToken exampleConfig exampleLib 60000 aliceAccessToken
                = Some \<lparr>jp_userId = ''u1'', jp_email = ''alice@x.com''\<rparr>"
    by (simp add: verifyAccessToken_def jwt_verify_def aliceAccessToken_def exampleLib_def
          exampleConfig_def example_codec Let_def)
  have late: "verifyAccessToken exampleConfig exampleLib 905000 aliceAccessToken = None"
    by (simp add: verifyAccessToken_def jwt_verify_def aliceAccessToken_def exampleLib_def
          exampleConfig_def example_codec Let_def)
  have junk: "verifyAccessToken exampleConfig exampleLib 60000 ''garbage'' = None"
    by (simp add: verifyAccessToken_def jwt_verify_def exampleLib_def exampleDecode_def
          decodeField_def)
  have cookie: "bearerToken (emptyRequest\<lparr>cookie_accessToken := Some ''garbage''\<rparr>) = Some ''garbage''"
    by (simp add: bearerToken_def emptyRequest_def)
  have empty: "\<not> truthy (bearerToken (emptyRequest\<lparr>hdr_authorization := Some ''Bearer '',
                  cookie_accessToken := Some ''abc''\<rparr>))"
    by (simp add: bearerToken_def emptyRequest_def)
  have none: "(\<forall>h. hdr_authorization emptyRequest = Some h \<longrightarrow> take 7 h \<noteq> ''Bearer '')
               \<and> \<not> truthy (cookie_accessToken emptyRequest)"
    by (simp add: emptyRequest_def)
  have ids: "distinct (map au_id (users exampleDb))" "alice \<in> set (users exampleDb)"
            "''u1'' \<notin> au_id ` set (users (exampleDb\<lparr>users := [bob]\<rparr>))"
            "au_id alice = ''u1''"
    by (simp_all add: example_defs)
  have whole: "\<lparr>au_id = au_id alice, au_email = au_email alice, au_name = au_name alice\<rparr> = alice"
    by simp
  from authenticate_cases [of emptyRequest exampleConfig exampleLib 60000 exampleDb] none
  have 1: "authenticate exampleConfig exampleLib 60000 exampleDb emptyRequest
     = Reject (Failure 401 ''Authentication required'')" by blast
  from authenticate_cases [of "emptyRequest\<lparr>hdr_authorization := Some ''Bearer '',
          cookie_accessToken := Some ''abc''\<rparr>" exampleConfig exampleLib 60000 exampleDb] empty
  have 2: "authenticate exampleConfig exampleLib 60000 exampleDb
       (emptyRequest\<lparr>hdr_authorization := Some ''Bearer '', cookie_accessToken := Some ''abc''\<rparr>)
     = Reject (Failure 401 ''Authentication required'')" by blast
  from authenticate_cases [of "emptyRequest\<lparr>cookie_accessToken := Some ''garbage''\<rparr>"
          exampleConfig exampleLib 60000 exampleDb] cookie junk
  have 3: "authenticate exampleConfig exampleLib 60000 exampleDb
       (emptyRequest\<lparr>cookie_accessToken := Some ''garbage''\<rparr>)
     = Reject (Failure 401 ''Invalid or expired token'')" by simp
  from authenticate_cases [of ?bearer exampleConfig exampleLib 905000 exampleDb] tok nonempty late
  have 4: "authenticate exampleConfig exampleLib 905000 exampleDb ?bearer
     = Reject (Failure 401 ''Invalid or expired token'')" by simp
  from authenticate_cases [of ?bearer exampleConfig exampleLib 60000 "exampleDb\<lparr>users := [bob]\<rparr>"]
       tok nonempty good ids(3)
  have 5: "authenticate exampleConfig exampleLib 60000 (exampleDb\<lparr>users := [bob]\<rparr>) ?bearer
     = Reject (Failure 401 ''User not found'')" by simp
  from authenticate_cases [of ?bearer exampleConfig exampleLib 60000 exampleDb]
       tok nonempty good ids(1,2,4) whole
  have 6: "authenticate exampleConfig exampleLib 60000 exampleDb ?bearer
     = Next (?bearer\<lparr>req_user := Some alice\<rparr>)" by simp
  from 1 2 3 4 5 6 show ?thesis by simp
qed

theorem requireRole_flat_witness:
  "requireRole [''OWNER'', ''ADMIN''] bobOnBeta = Next bobOnBeta
   \<and> requireRole [''ADMIN'', ''MEMBER''] bobOnBeta = Reject (Failure 403 ''Insufficient permissions'')
   \<and> requireRole [''OWNER''] (bobOnBeta\<lparr>req_workspaceMember := Some aliceInBeta\<rparr>)
       = Reject (Failure 403 ''Insufficient permissions'')"
proof -
  have m: "req_workspaceMember bobOnBeta = Some bobInBeta"
          "req_workspaceMember (bobOnBeta\<lparr>req_workspaceMember := Some aliceInBeta\<rparr>) = Some aliceInBeta"
    by (simp_all add: bobOnBeta_def)
  from requireRole_flat [OF m(1), of "[''OWNER'', ''ADMIN'']"]
       requireRole_flat [OF m(1), of "[''ADMIN'', ''MEMBER'']"]
       requireRole_flat [OF m(2), of "[''OWNER'']"]
  show ?thesis by (simp add: roleName_def bobInBeta_def aliceInBeta_def)
qed

theorem acceptInvitation_wrong_email_witness:
  "acceptInvitation 100 ''m9'' exampleDb (emptyRequest\<lparr>body_token := ''k1'', req_user := Some alice\<rparr>)
     = (Failure 403 ''This invitation is for a different email address'', exampleDb)"
proof -
  let ?req = "emptyRequest\<lparr>body_token := ''k1'', req_user := Some alice\<rparr>"
  have "req_user ?req = Some alice" by simp
  moreover have "invitations_ok (invitations exampleDb)" by (rule example_invitations_ok)
  moreover have "bobInvited \<in> set (invitations exampleDb)" by (simp add: exampleDb_def)
  moreover have "inv_token bobInvited = body_token ?req" by (simp add: bobInvited_def)
  moreover have "inv_status bobInvited = PENDING" by (simp add: bobInvited_def)
  moreover have "\<not> inv_expiresAt bobInvited < 100" by (simp add: bobInvited_def)
  moreover have "toLowerCase (inv_email bobInvited) \<noteq> toLowerCase (au_email alice)"
    by (simp add: bobInvited_def alice_def toLowerCase_def lowerChar_def)
  ultimately show ?thesis by (rule acceptInvitation_wrong_email)
qed

theorem removeMember_owner_protected_witness:
  "removeMember exampleDb (bobOnBeta\<lparr>param_memberId := ''m2''\<rparr>)
     = (Failure 400 ''Cannot remove workspace owner'', exampleDb)
   \<and> fst (removeMember exampleDb (bobOnBeta\<lparr>param_memberId := ''m3''\<rparr>))
       = Success 200 (Message ''Member removed successfully'')
   \<and> bobInBeta \<in> set (workspaceMembers (snd (removeMember exampleDb (bobOnBeta\<lparr>param_memberId := ''m3''\<rparr>))))
   \<and> owners (snd (removeMember exampleDb (bobOnBeta\<lparr>param_memberId := ''m3''\<rparr>))) ''w2''
       = owners exampleDb ''w2''"
proof -
  have o: "bobInBeta \<in> set (workspaceMembers exampleDb)" "wm_isOwner bobInBeta"
    by (simp_all add: exampleDb_def bobInBeta_def)
  have a: "removeMember exampleDb (bobOnBeta\<lparr>param_memberId := ''m2''\<rparr>)
     = (Failure 400 ''Cannot remove workspace owner'', exampleDb)"
    by (simp add: removeMember_def example_defs)
  have b: "fst (removeMember exampleDb (bobOnBeta\<lparr>param_memberId := ''m3''\<rparr>))
       = Success 200 (Message ''Member removed successfully'')"
    by (simp add: removeMember_def example_defs)
  from removeMember_owner_protected [OF example_members_ok o,
         of "bobOnBeta\<lparr>param_memberId := ''m2''\<rparr>" "''w2''"]
       removeMember_owner_protected [OF example_members_ok o,
         of "bobOnBeta\<lparr>param_memberId := ''m3''\<rparr>" "''w2''"] a b
  show ?thesis by simp
qed

text \<open>
  C5 as stated fails: Bob, owner of the partnership Beta, passes the middleware of the
  \<^verbatim>\<open>PATCH /:workspaceId\<close> route and \<open>updateWorkspace\<close> with the type \<^verbatim>\<open>SOLE_TRADER\<close>
  in the body turns Beta into a sole trader again.
\<close>

theorem updateWorkspace_reverts_partnership:
  "workspaceType exampleDb ''w2'' = Some PARTNERSHIP
   \<and> requireWorkspace exampleDb
        (emptyRequest\<lparr>body_type := Some ''SOLE_TRADER'', param_workspaceId := Some ''w2'',
                       req_user := Some bob\<rparr>)
       = Next (bobOnBeta\<lparr>body_type := Some ''SOLE_TRADER''\<rparr>)
   \<and> requireRole [''OWNER'', ''ADMIN''] (bobOnBeta\<lparr>body_type := Some ''SOLE_TRADER''\<rparr>)
       = Next (bobOnBeta\<lparr>body_type := Some ''SOLE_TRADER''\<rparr>)
   \<and> fst (updateWorkspace exampleDb (bobOnBeta\<lparr>body_type := Some ''SOLE_TRADER''\<rparr>))
       = Success 200 (WorkspaceData (beta\<lparr>ws_type := SOLE_TRADER\<rparr>))
   \<and> workspaceType (snd (updateWorkspace exampleDb (bobOnBeta\<lparr>body_type := Some ''SOLE_TRADER''\<rparr>)))
        ''w2'' = Some SOLE_TRADER"
  by (simp add: workspaceType_def requireWorkspace_def requireRole_def updateWorkspace_def
        roleName_def parseWorkspaceType_def example_defs Let_def)

theorem partnership_is_kept_witness:
  "workspaceType exampleDb ''w1'' = Some SOLE_TRADER
   \<and> workspaceType
        (perform (OpAcceptInvitation 100 ''m9'' (emptyRequest\<lparr>body_token := ''k1'', req_user := Some bob\<rparr>))
           exampleDb) ''w1'' = Some PARTNERSHIP
   \<and> workspaceType
        (run [OpUpdateWorkspace (aliceOnAlpha\<lparr>body_name := Some ''Gamma''\<rparr>),
              OpUpdateWorkspace (aliceOnAlpha\<lparr>body_type := Some ''PARTNERSHIP''\<rparr>),
              OpRemoveMember (aliceOnAlpha\<lparr>param_memberId := ''m9''\<rparr>),
              OpCompleteOnboarding ''w3'' ''m7''
                (emptyRequest\<lparr>body_workspaceName := ''Delta'', body_accountType := ''SOLE_TRADER'',
                               req_user := Some \<lparr>au_id = ''u3'', au_email = ''carol@x.com'',
                                                 au_name = None\<rparr>\<rparr>)]
           (perform (OpAcceptInvitation 100 ''m9''
                       (emptyRequest\<lparr>body_token := ''k1'', req_user := Some bob\<rparr>)) exampleDb))
        ''w1'' = Some PARTNERSHIP"
proof -
  let ?db = "perform (OpAcceptInvitation 100 ''m9''
                       (emptyRequest\<lparr>body_token := ''k1'', req_user := Some bob\<rparr>)) exampleDb"
  let ?ops = "[OpUpdateWorkspace (aliceOnAlpha\<lparr>body_name := Some ''Gamma''\<rparr>),
              OpUpdateWorkspace (aliceOnAlpha\<lparr>body_type := Some ''PARTNERSHIP''\<rparr>),
              OpRemoveMember (aliceOnAlpha\<lparr>param_memberId := ''m9''\<rparr>),
              OpCompleteOnboarding ''w3'' ''m7''
                (emptyRequest\<lparr>body_workspaceName := ''Delta'', body_accountType := ''SOLE_TRADER'',
                               req_user := Some \<lparr>au_id = ''u3'', au_email = ''carol@x.com'',
                                                 au_name = None\<rparr>\<rparr>)]"
  have before: "workspaceType exampleDb ''w1'' = Some SOLE_TRADER"
    by (simp add: workspaceType_def example_defs)
  have accepted: "workspaceType ?db ''w1'' = Some PARTNERSHIP"
    by (simp add: workspaceType_def acceptInvitation_def toLowerCase_def lowerChar_def
          example_defs Let_def)
  have harmless: "\<forall>operation \<in> set ?ops. \<not> setsSoleTrader operation"
    by (simp add: example_defs)
  from partnership_is_kept [OF accepted harmless] before accepted show ?thesis by simp
qed

text \<open>
  C6 as stated fails: Alice, owner of Alpha, cancels the pending invitation of Bob; the
  answer is 200 and the row is deleted, so no invitation has the status \<open>CANCELLED\<close>.
\<close>

theorem cancelInvitation_removes_row:
  "requireRole [''OWNER'', ''ADMIN''] (aliceOnAlpha\<lparr>param_invitationId := ''i1''\<rparr>)
     = Next (aliceOnAlpha\<lparr>param_invitationId := ''i1''\<rparr>)
   \<and> map inv_status (invitations exampleDb) = [PENDING, ACCEPTED]
   \<and> fst (cancelInvitation exampleDb (aliceOnAlpha\<lparr>param_invitationId := ''i1''\<rparr>))
       = Success 200 (Message ''Invitation cancelled'')
   \<and> invitations (snd (cancelInvitation exampleDb (aliceOnAlpha\<lparr>param_invitationId := ''i1''\<rparr>)))
       = [aliceAccepted]
   \<and> map inv_status
        (invitations (snd (cancelInvitation exampleDb (aliceOnAlpha\<lparr>param_invitationId := ''i1''\<rparr>))))
       = [ACCEPTED]"
  by (simp add: requireRole_def cancelInvitation_def roleName_def example_defs)

theorem cancelInvitation_deletes_witness:
  "cancelInvitation exampleDb (aliceOnAlpha\<lparr>param_invitationId := ''i1''\<rparr>)
     = (Success 200 (Message ''Invitation cancelled''),
        exampleDb\<lparr>invitations := remove1 bobInvited (invitations exampleDb)\<rparr>)
   \<and> aliceAccepted \<in> set (invitations
        (run [OpAcceptInvitation 100 ''m8'' (emptyRequest\<lparr>body_token := ''k2'', req_user := Some alice\<rparr>),
              OpCancelInvitation (bobOnBeta\<lparr>param_invitationId := ''i2''\<rparr>),
              OpCancelInvitation (aliceOnAlpha\<lparr>param_invitationId := ''i1''\<rparr>)] exampleDb))"
proof -
  let ?req = "aliceOnAlpha\<lparr>param_invitationId := ''i1''\<rparr>"
  have i: "bobInvited \<in> set (invitations exampleDb)" "aliceAccepted \<in> set (invitations exampleDb)"
    by (simp_all add: exampleDb_def)
  have r: "req_workspace ?req = Some alpha \<and> req_workspaceMember ?req = Some aliceInAlpha
            \<and> wm_role aliceInAlpha \<in> {OWNER, ADMIN}
            \<and> inv_id bobInvited = param_invitationId ?req
            \<and> inv_workspaceId bobInvited = ws_id alpha
            \<and> inv_status bobInvited = PENDING"
    by (simp add: example_defs)
  have t: "inv_status aliceAccepted \<noteq> PENDING" by (simp add: aliceAccepted_def)
  from cancelInvitation_deletes [OF example_invitations_ok, of ?req] i r t show ?thesis by blast
qed

end
